theory Spec2Isabelle
  imports Main "HOL-Library.Code_Target_Nat"
begin

section \<open>Exceptions and results\<close>

text \<open>
  The Python exception classes the scripts distinguish.  \<open>InvalidSessionIdException\<close> is a
  subclass of \<open>WebDriverException\<close>; \<open>KeyboardInterrupt\<close> and \<open>SystemExit\<close> derive from
  \<open>BaseException\<close> only, so an \<open>except Exception\<close> clause does not catch them.
\<close>

datatype exn =
    WebDriverException
  | InvalidSessionIdException
  | APIError
  | ValueError
  | RecursionError
  | OtherException
  | KeyboardInterrupt
  | SystemExit

fun is_Exception :: "exn \<Rightarrow> bool" where
  "is_Exception KeyboardInterrupt = False"
| "is_Exception SystemExit = False"
| "is_Exception _ = True"

fun is_WebDriverException :: "exn \<Rightarrow> bool" where
  "is_WebDriverException WebDriverException = True"
| "is_WebDriverException InvalidSessionIdException = True"
| "is_WebDriverException _ = False"

datatype 'a result = Return 'a | Raise exn

section \<open>The persistence sink (the "Card Offers" worksheet)\<close>

type_synonym row = "string list"

text \<open>
  \<open>sheet\<close> holds every row of the worksheet, header first.  \<open>calls\<close> logs the argument of
  every \<open>append_rows\<close> call in order, failed ones included.  \<open>faults\<close> scripts the sink's
  transport: each API call consumes the head, \<open>True\<close> meaning that the call raises
  (gspread's \<open>APIError\<close>) and leaves the worksheet untouched; an exhausted script means
  success.  \<open>basic_filter\<close> is the stored view filter (end row, end column).
\<close>

record sink =
  sheet :: "row list"
  calls :: "row list list"
  faults :: "bool list"
  basic_filter :: "(nat \<times> nat) option"

definition api_call :: "sink \<Rightarrow> bool \<times> sink" where
  "api_call s = (case faults s of [] \<Rightarrow> (False, s) | f # fs \<Rightarrow> (f, s\<lparr>faults := fs\<rparr>))"

definition append_rows :: "row list \<Rightarrow> sink \<Rightarrow> unit result \<times> sink" where
  "append_rows rs s =
     (let (bad, s1) = api_call (s\<lparr>calls := calls s @ [rs]\<rparr>)
      in if bad then (Raise APIError, s1)
         else (Return (), s1\<lparr>sheet := sheet s1 @ rs\<rparr>))"

definition get_all_values :: "sink \<Rightarrow> row list result \<times> sink" where
  "get_all_values s =
     (let (bad, s1) = api_call s
      in if bad then (Raise APIError, s1) else (Return (sheet s1), s1))"

text \<open>\<open>deleteRange\<close> of the single row \<open>i\<close> (zero-based), the rows below shifting up.\<close>

definition delete_row :: "nat \<Rightarrow> row list \<Rightarrow> row list" where
  "delete_row i rs = take i rs @ drop (Suc i) rs"

text \<open>A batch of \<open>deleteRange\<close> requests is applied in the order given.\<close>

definition batch_delete :: "nat list \<Rightarrow> sink \<Rightarrow> unit result \<times> sink" where
  "batch_delete req s =
     (let (bad, s1) = api_call s
      in if bad then (Raise APIError, s1)
         else (Return (), s1\<lparr>sheet := fold delete_row req (sheet s1)\<rparr>))"

definition OFFER_HEADERS :: row where
  "OFFER_HEADERS =
     [''Card Holder'', ''Last Four'', ''Card Name'', ''Brand'', ''Discount'',
      ''Maximum Discount'', ''Minimum Spend'', ''Date Added'', ''Expiration'', ''Local'']"

text \<open>
  \<open>reset_filters_full_range\<close>: reads the sheet, then clears and sets the basic filter over
  rows \<open>0 ..< max 1 (len values)\<close> and the ten header columns.  Neither call is guarded.
\<close>

definition reset_filters_full_range :: "sink \<Rightarrow> unit result \<times> sink" where
  "reset_filters_full_range s =
     (case get_all_values s of
        (Raise e, s1) \<Rightarrow> (Raise e, s1)
      | (Return vals, s1) \<Rightarrow>
          (let (bad, s2) = api_call s1
           in if bad then (Raise APIError, s2)
              else (Return (),
                    s2\<lparr>basic_filter := Some (max 1 (length vals), length OFFER_HEADERS)\<rparr>)))"

subsection \<open>\<open>dedupe_rows\<close>\<close>

text \<open>
  The scan \<open>for i in range(len(rows) - 1, 0, -1)\<close>: \<open>seen\<close> is the set of keys met so far,
  \<open>req\<close> the delete requests collected (row indices, in scan order).
\<close>

fun dedupe_scan :: "row list \<Rightarrow> nat list \<Rightarrow> row set \<Rightarrow> nat list \<Rightarrow> nat list" where
  "dedupe_scan rows [] seen req = req"
| "dedupe_scan rows (i # is) seen req =
     (if rows ! i \<in> seen then dedupe_scan rows is seen (req @ [i])
      else dedupe_scan rows is (insert (rows ! i) seen) req)"

text \<open>\<open>range(n - 1, 0, -1)\<close>: the indices \<open>n - 1, ..., 1\<close> (empty when \<open>n \<le> 1\<close>).\<close>

definition range_down :: "nat \<Rightarrow> nat list" where
  "range_down n = rev [1 ..< n]"

definition dedupe_rows :: "sink \<Rightarrow> nat result \<times> sink" where
  "dedupe_rows s =
     (case get_all_values s of
        (Raise e, s1) \<Rightarrow> (Raise e, s1)
      | (Return rows, s1) \<Rightarrow>
          (let req = dedupe_scan rows (range_down (length rows)) {} []
           in if req \<noteq> [] then
                (case batch_delete req s1 of
                   (Raise e, s2) \<Rightarrow> (Raise e, s2)
                 | (Return u, s2) \<Rightarrow> (Return (length req), s2))
              else (Return (length req), s1)))"

text \<open>
  The other scan direction the specification speaks of (the scripts do not contain it):
  the same scan over \<open>1, ..., n - 1\<close>, and the rows that remain once the requested rows are
  gone.
\<close>

definition forward_scan :: "row list \<Rightarrow> nat list" where
  "forward_scan rows = dedupe_scan rows [1 ..< length rows] {} []"

definition survivors :: "row list \<Rightarrow> nat list \<Rightarrow> row list" where
  "survivors rows req = map snd (filter (\<lambda>(i, r). i \<notin> set req) (enumerate 0 rows))"

section \<open>The batched persistence writer\<close>

text \<open>
  The module-level buffers of the Chase script and the sink they are written to.
  \<open>events\<close> records, in order, the accounts whose offers view the run navigated to
  (\<open>Visit\<close>) and those for which it started the enrollment loop (\<open>Enroll\<close>).
  \<open>APPEND_CHUNK_SIZE\<close> is read from the environment with \<open>int(...)\<close>, so it is an
  arbitrary integer and is passed as a parameter.
\<close>

datatype event = Visit string | Enroll string

record world =
  APPEND_BUFFER :: "row list"
  CURRENT_CARD_BUFFER :: "row list"
  snk :: sink
  events :: "event list"

text \<open>
  \<open>range(0, n, c)\<close>: \<open>ValueError\<close> for a zero step, empty for a negative one, otherwise
  \<open>0, c, 2c, ...\<close> below \<open>n\<close>.
\<close>

definition range_step :: "nat \<Rightarrow> int \<Rightarrow> nat list result" where
  "range_step n c =
     (if c = 0 then Raise ValueError
      else if c < 0 then Return []
      else Return (map (\<lambda>j. j * nat c) [0 ..< (n + nat c - 1) div nat c]))"

text \<open>
  The body of the \<open>for\<close> loop of \<open>flush_buffer\<close>: \<open>chunk = APPEND_BUFFER[i:i + c]\<close>, one
  \<open>append_rows\<close> call, \<open>total += len(chunk)\<close>.  An exception leaves the loop at once.
\<close>

fun append_chunks ::
  "row list \<Rightarrow> nat \<Rightarrow> nat list \<Rightarrow> nat \<Rightarrow> sink \<Rightarrow> unit result \<times> nat \<times> sink" where
  "append_chunks buf c [] tot s = (Return (), tot, s)"
| "append_chunks buf c (i # is) tot s =
     (case append_rows (take c (drop i buf)) s of
        (Raise e, s1) \<Rightarrow> (Raise e, tot, s1)
      | (Return u, s1) \<Rightarrow> append_chunks buf c is (tot + length (take c (drop i buf))) s1)"

text \<open>The \<open>try\<close> block of \<open>flush_buffer\<close>: the chunked appends, then the filter reset.\<close>

definition flush_try :: "int \<Rightarrow> row list \<Rightarrow> sink \<Rightarrow> unit result \<times> sink" where
  "flush_try chunk buf s =
     (case range_step (length buf) chunk of
        Raise e \<Rightarrow> (Raise e, s)
      | Return is \<Rightarrow>
          (case append_chunks buf (nat chunk) is 0 s of
             (Raise e, tot, s1) \<Rightarrow> (Raise e, s1)
           | (Return u, tot, s1) \<Rightarrow> reset_filters_full_range s1))"

text \<open>
  \<open>flush_buffer\<close>: the current card's rows join the buffer; an empty buffer returns at
  once; otherwise the \<open>try\<close> block runs, \<open>except Exception\<close> swallows what it raises, and the
  \<open>finally\<close> clause empties the buffer whatever happened.
\<close>

definition flush_buffer :: "int \<Rightarrow> world \<Rightarrow> unit result \<times> world" where
  "flush_buffer chunk w =
     (let w1 = (if CURRENT_CARD_BUFFER w \<noteq> []
                then w\<lparr>APPEND_BUFFER := APPEND_BUFFER w @ CURRENT_CARD_BUFFER w,
                       CURRENT_CARD_BUFFER := []\<rparr>
                else w)
      in if APPEND_BUFFER w1 = [] then (Return (), w1)
         else (case flush_try chunk (APPEND_BUFFER w1) (snk w1) of
                 (Raise e, s1) \<Rightarrow>
                   (if is_Exception e then Return () else Raise e,
                    w1\<lparr>APPEND_BUFFER := [], snk := s1\<rparr>)
               | (Return u, s1) \<Rightarrow> (Return (), w1\<lparr>APPEND_BUFFER := [], snk := s1\<rparr>)))"

section \<open>Text: characters, stripping, regular expressions\<close>

text \<open>
  A \<open>char\<close> stands for a code point up to \<open>U+00FF\<close>, so a string is a Python \<open>str\<close>
  whose code points are in that range; text with other code points is outside the
  model.  On this range \<open>is_space\<close> is \<open>str.isspace\<close> and the \<open>\s\<close> of \<open>re\<close>: tab, line
  feed, vertical tab, form feed, carriage return, the separators \<open>0x1C .. 0x1F\<close>, the
  space, the next-line control \<open>0x85\<close> and the no-break space \<open>0xA0\<close>.  \<open>is_digit\<close> is
  \<open>\d\<close> (the decimal digits of the range are \<open>0 .. 9\<close>), \<open>is_alpha\<close> the class
  \<open>[A-Za-z]\<close>, and \<open>is_word\<close> the class \<open>\w\<close>: the underscore and what \<open>str.isalnum\<close>
  accepts, which beyond ASCII are the letters, superscript digits and fractions listed
  in \<open>latin1_alnum\<close>.
\<close>

definition is_space :: "char \<Rightarrow> bool" where
  "is_space c \<longleftrightarrow> c \<in> set [CHR 0x09, CHR 0x0A, CHR 0x0B, CHR 0x0C, CHR 0x0D,
                               CHR 0x1C, CHR 0x1D, CHR 0x1E, CHR 0x1F, CHR '' '',
                               CHR 0x85, CHR 0xA0]"

definition is_digit :: "char \<Rightarrow> bool" where
  "is_digit c \<longleftrightarrow> c \<in> set ''0123456789''"

definition is_upper :: "char \<Rightarrow> bool" where
  "is_upper c \<longleftrightarrow> c \<in> set ''ABCDEFGHIJKLMNOPQRSTUVWXYZ''"

definition is_lower :: "char \<Rightarrow> bool" where
  "is_lower c \<longleftrightarrow> c \<in> set ''abcdefghijklmnopqrstuvwxyz''"

definition is_alpha :: "char \<Rightarrow> bool" where
  "is_alpha c \<longleftrightarrow> is_upper c \<or> is_lower c"

definition latin1_alnum :: "char list" where
  "latin1_alnum =
     [CHR 0xAA, CHR 0xB2, CHR 0xB3, CHR 0xB5, CHR 0xB9, CHR 0xBA, CHR 0xBC, CHR 0xBD,
      CHR 0xBE, CHR 0xC0, CHR 0xC1, CHR 0xC2, CHR 0xC3, CHR 0xC4, CHR 0xC5, CHR 0xC6,
      CHR 0xC7, CHR 0xC8, CHR 0xC9, CHR 0xCA, CHR 0xCB, CHR 0xCC, CHR 0xCD, CHR 0xCE,
      CHR 0xCF, CHR 0xD0, CHR 0xD1, CHR 0xD2, CHR 0xD3, CHR 0xD4, CHR 0xD5, CHR 0xD6,
      CHR 0xD8, CHR 0xD9, CHR 0xDA, CHR 0xDB, CHR 0xDC, CHR 0xDD, CHR 0xDE, CHR 0xDF,
      CHR 0xE0, CHR 0xE1, CHR 0xE2, CHR 0xE3, CHR 0xE4, CHR 0xE5, CHR 0xE6, CHR 0xE7,
      CHR 0xE8, CHR 0xE9, CHR 0xEA, CHR 0xEB, CHR 0xEC, CHR 0xED, CHR 0xEE, CHR 0xEF,
      CHR 0xF0, CHR 0xF1, CHR 0xF2, CHR 0xF3, CHR 0xF4, CHR 0xF5, CHR 0xF6, CHR 0xF8,
      CHR 0xF9, CHR 0xFA, CHR 0xFB, CHR 0xFC, CHR 0xFD, CHR 0xFE, CHR 0xFF]"

definition is_word :: "char \<Rightarrow> bool" where
  "is_word c \<longleftrightarrow> is_alpha c \<or> is_digit c \<or> c = CHR ''_'' \<or> c \<in> set latin1_alnum"

text \<open>
  Case folding for the comparison with an ASCII literal under \<open>re.I\<close>, and
  \<open>str.lower\<close> on text matched by such a literal: no other code point of the range
  matches an ASCII letter, so only the ASCII capitals are folded.
\<close>

definition lower_char :: "char \<Rightarrow> char" where
  "lower_char c =
     (case map_of (zip ''ABCDEFGHIJKLMNOPQRSTUVWXYZ'' ''abcdefghijklmnopqrstuvwxyz'') c of
        None \<Rightarrow> c | Some l \<Rightarrow> l)"

definition lower :: "string \<Rightarrow> string" where
  "lower s = map lower_char s"

text \<open>\<open>str.strip()\<close>.\<close>

definition strip :: "string \<Rightarrow> string" where
  "strip s = rev (dropWhile is_space (rev (dropWhile is_space s)))"

text \<open>\<open>int(s)\<close> for a string of decimal digits.\<close>

definition digit_val :: "char \<Rightarrow> nat" where
  "digit_val c = (case map_of (zip ''0123456789'' [0, 1, 2, 3, 4, 5, 6, 7, 8, 9]) c of
                    None \<Rightarrow> 0 | Some v \<Rightarrow> v)"

definition int_of_digits :: "string \<Rightarrow> nat" where
  "int_of_digits s = foldl (\<lambda>acc c. 10 * acc + digit_val c) 0 s"

subsection \<open>A backtracking matcher for the patterns the scripts use\<close>

text \<open>
  A position in the subject string: the text before it, reversed, and the text after it.
\<close>

type_synonym pos = "string \<times> string"

text \<open>
  The fragment of Python's \<open>re\<close> syntax that occurs in the scripts.  \<open>Lit\<close> is a literal,
  \<open>Cls c m n\<close> a greedy repetition \<open>{m,n}\<close> of a character class (\<open>n = None\<close>: unbounded;
  \<open>*\<close>, \<open>+\<close> and a single class are instances), \<open>Opt\<close> a greedy \<open>?\<close> on a group, \<open>Bol\<close> is
  \<open>^\<close>, \<open>Eol\<close> is \<open>$\<close> and \<open>Wordb\<close> is \<open>\b\<close>.  Every quantifier of the scripts' patterns
  applies to a single class or is a \<open>?\<close> on a group.
\<close>

datatype rx =
    Lit string
  | Cls "char \<Rightarrow> bool" nat "nat option"
  | Seq rx rx
  | Alt rx rx
  | Opt rx
  | Bol
  | Eol
  | Wordb

definition advance :: "nat \<Rightarrow> pos \<Rightarrow> pos" where
  "advance j p = (rev (take j (snd p)) @ fst p, drop j (snd p))"

definition word_before :: "pos \<Rightarrow> bool" where
  "word_before p = (case fst p of [] \<Rightarrow> False | c # _ \<Rightarrow> is_word c)"

definition word_after :: "pos \<Rightarrow> bool" where
  "word_after p = (case snd p of [] \<Rightarrow> False | c # _ \<Rightarrow> is_word c)"

text \<open>
  \<open>rmatch ic r p\<close> lists the positions at which a match of \<open>r\<close> that starts at \<open>p\<close> can
  end, in the order in which Python's backtracking matcher tries them: the left
  alternative before the right one, the longest repetition first.  \<open>ic\<close> is the flag
  \<open>re.I\<close>; it folds the case of literals (the letter classes of the patterns matched
  under \<open>re.I\<close> are all \<open>[A-Za-z]\<close>).
\<close>

fun rmatch :: "bool \<Rightarrow> rx \<Rightarrow> pos \<Rightarrow> pos list" where
  "rmatch ic (Lit l) p =
     (let t = take (length l) (snd p)
      in if (if ic then lower t = lower l else t = l) then [advance (length l) p] else [])"
| "rmatch ic (Cls c m n) p =
     (let run = length (takeWhile c (snd p));
          k = (case n of None \<Rightarrow> run | Some n' \<Rightarrow> min n' run)
      in map (\<lambda>j. advance j p) (rev [m ..< Suc k]))"
| "rmatch ic (Seq r1 r2) p = concat (map (rmatch ic r2) (rmatch ic r1 p))"
| "rmatch ic (Alt r1 r2) p = rmatch ic r1 p @ rmatch ic r2 p"
| "rmatch ic (Opt r) p = rmatch ic r p @ [p]"
| "rmatch ic Bol p = (if fst p = [] then [p] else [])"
| "rmatch ic Eol p = (if snd p = [] \<or> snd p = [CHR 0x0A] then [p] else [])"
| "rmatch ic Wordb p = (if word_before p \<noteq> word_after p then [p] else [])"

text \<open>The text between two positions of the same subject.\<close>

definition between :: "pos \<Rightarrow> pos \<Rightarrow> string" where
  "between p q = take (length (snd p) - length (snd q)) (snd p)"

text \<open>
  \<open>search\<close>: the leftmost start position from which the matcher \<open>m\<close> succeeds, with the
  first success there.
\<close>

fun search_from :: "(pos \<Rightarrow> 'a list) \<Rightarrow> string \<Rightarrow> string \<Rightarrow> (pos \<times> 'a) option" where
  "search_from m b [] = (case m (b, []) of [] \<Rightarrow> None | x # _ \<Rightarrow> Some ((b, []), x))"
| "search_from m b (c # a) =
     (case m (b, c # a) of
        [] \<Rightarrow> search_from m (c # b) a
      | x # _ \<Rightarrow> Some ((b, c # a), x))"

text \<open>\<open>re.search(r, s)\<close> as a truth value, and its \<open>group(0)\<close>.\<close>

definition re_search :: "bool \<Rightarrow> rx \<Rightarrow> string \<Rightarrow> bool" where
  "re_search ic r s \<longleftrightarrow> search_from (rmatch ic r) [] s \<noteq> None"

definition re_group0 :: "bool \<Rightarrow> rx \<Rightarrow> string \<Rightarrow> string option" where
  "re_group0 ic r s = map_option (\<lambda>(p, q). between p q) (search_from (rmatch ic r) [] s)"

text \<open>
  A pattern with one capturing group is given as the part before the group, the group
  and the part after it; \<open>re_group1\<close> is \<open>group(1)\<close> of \<open>re.search\<close>.
\<close>

definition rmatch3 :: "bool \<Rightarrow> rx \<Rightarrow> rx \<Rightarrow> rx \<Rightarrow> pos \<Rightarrow> (pos \<times> pos) list" where
  "rmatch3 ic pre grp post p =
     concat (map (\<lambda>p1. concat (map (\<lambda>p2. map (\<lambda>p3. (p1, p2)) (rmatch ic post p2))
                                     (rmatch ic grp p1)))
                 (rmatch ic pre p))"

definition re_group1 :: "bool \<Rightarrow> rx \<Rightarrow> rx \<Rightarrow> rx \<Rightarrow> string \<Rightarrow> string option" where
  "re_group1 ic pre grp post s =
     map_option (\<lambda>(p, (p1, p2)). between p1 p2) (search_from (rmatch3 ic pre grp post) [] s)"

text \<open>Abbreviations for the usual pieces.\<close>

definition Eps :: rx where "Eps = Lit []"
definition One :: "(char \<Rightarrow> bool) \<Rightarrow> rx" where "One c = Cls c 1 (Some 1)"
definition Star :: "(char \<Rightarrow> bool) \<Rightarrow> rx" where "Star c = Cls c 0 None"
definition Plus :: "(char \<Rightarrow> bool) \<Rightarrow> rx" where "Plus c = Cls c 1 None"

fun Seqs :: "rx list \<Rightarrow> rx" where
  "Seqs [] = Lit []"
| "Seqs [r] = r"
| "Seqs (r # rs) = Seq r (Seqs rs)"

fun Alts :: "rx list \<Rightarrow> rx" where
  "Alts [] = Cls (\<lambda>c. False) 1 (Some 1)"
| "Alts [r] = r"
| "Alts (r # rs) = Alt r (Alts rs)"

section \<open>Dates\<close>

text \<open>
  \<open>datetime.date\<close>: year, month, day.  The arithmetic follows CPython's \<open>datetime\<close>
  (proleptic Gregorian ordinals, day 1 being 0001-01-01).
\<close>

datatype date = Date nat nat nat

definition is_leap :: "nat \<Rightarrow> bool" where
  "is_leap y \<longleftrightarrow> y mod 4 = 0 \<and> (y mod 100 \<noteq> 0 \<or> y mod 400 = 0)"

definition days_in_month :: "nat \<Rightarrow> nat \<Rightarrow> nat" where
  "days_in_month y m =
     (if m = 2 \<and> is_leap y then 29
      else [31, 28, 31, 30, 31, 30, 31, 31, 30, 31, 30, 31] ! (m - 1))"

definition days_before_month :: "nat \<Rightarrow> nat \<Rightarrow> nat" where
  "days_before_month y m =
     [0, 31, 59, 90, 120, 151, 181, 212, 243, 273, 304, 334] ! (m - 1)
       + (if m > 2 \<and> is_leap y then 1 else 0)"

definition days_before_year :: "nat \<Rightarrow> nat" where
  "days_before_year y = (y - 1) * 365 + (y - 1) div 4 - (y - 1) div 100 + (y - 1) div 400"

text \<open>The \<open>date\<close> constructor accepts years 1 to 9999 and days that exist.\<close>

definition valid_date :: "nat \<Rightarrow> nat \<Rightarrow> nat \<Rightarrow> bool" where
  "valid_date y m d \<longleftrightarrow>
     1 \<le> y \<and> y \<le> 9999 \<and> 1 \<le> m \<and> m \<le> 12 \<and> 1 \<le> d \<and> d \<le> days_in_month y m"

fun ymd2ord :: "date \<Rightarrow> nat" where
  "ymd2ord (Date y m d) = days_before_year y + days_before_month y m + d"

text \<open>\<open>_ord2ymd\<close>, for an ordinal \<open>n \<ge> 1\<close>.\<close>

definition ord2ymd :: "nat \<Rightarrow> date" where
  "ord2ymd n0 =
     (let n = n0 - 1;
          n400 = n div 146097; n = n mod 146097;
          n100 = n div 36524; n = n mod 36524;
          n4 = n div 1461; n = n mod 1461;
          n1 = n div 365; n = n mod 365;
          y = n400 * 400 + 1 + n100 * 100 + n4 * 4 + n1
      in if n1 = 4 \<or> n100 = 4 then Date (y - 1) 12 31
         else
           (let leapyear = (n1 = 3 \<and> (n4 \<noteq> 24 \<or> n100 = 3));
                m = (n + 50) div 32;
                preceding = days_before_month (if leapyear then 4 else 1) m
            in if preceding > n
               then Date y (m - 1)
                      (n - (preceding - days_in_month (if leapyear then 4 else 1) (m - 1)) + 1)
               else Date y m (n - preceding + 1)))"

text \<open>
  \<open>(datetime.today() + timedelta(days=k)).date()\<close>, \<open>today\<close> being the run date:
  \<open>timedelta\<close> raises \<open>OverflowError\<close> beyond 999999999 days and the sum raises it beyond
  9999-12-31 (ordinal 3652059).  The caller catches both, so the failure is \<open>None\<close>.
\<close>

definition add_days :: "date \<Rightarrow> nat \<Rightarrow> date option" where
  "add_days today k =
     (if k > 999999999 then None
      else if ymd2ord today + k > 3652059 then None
      else Some (ord2ymd (ymd2ord today + k)))"

definition MONTH_ABBR :: "string list" where
  "MONTH_ABBR = [''Jan'', ''Feb'', ''Mar'', ''Apr'', ''May'', ''Jun'',
                 ''Jul'', ''Aug'', ''Sep'', ''Oct'', ''Nov'', ''Dec'']"

definition MONTH_FULL :: "string list" where
  "MONTH_FULL = [''January'', ''February'', ''March'', ''April'', ''May'', ''June'', ''July'',
                 ''August'', ''September'', ''October'', ''November'', ''December'']"

definition digit_char :: "nat \<Rightarrow> char" where
  "digit_char n = ''0123456789'' ! (n mod 10)"

text \<open>
  \<open>d.strftime("%b %d, %Y")\<close> in the C locale: the month's abbreviation, the day on two
  digits, and the year as the C library prints it, with no padding (a year from 1000 on
  has four digits).
\<close>

definition year_digits :: "nat \<Rightarrow> string" where
  "year_digits y =
     (if y < 10 then [digit_char y]
      else if y < 100 then [digit_char (y div 10), digit_char y]
      else if y < 1000 then [digit_char (y div 100), digit_char (y div 10), digit_char y]
      else [digit_char (y div 1000), digit_char (y div 100), digit_char (y div 10),
            digit_char y])"

fun strftime_b_d_Y :: "date \<Rightarrow> string" where
  "strftime_b_d_Y (Date y m d) =
     MONTH_ABBR ! (m - 1) @ '' '' @ [digit_char (d div 10), digit_char d] @ '', ''
       @ year_digits y"

subsection \<open>\<open>datetime.strptime\<close>\<close>

text \<open>
  The directives of the scripts' formats.  \<open>strptime\<close> turns a format into a regular
  expression (\<open>_strptime.TimeRE\<close>): each directive becomes a named group, a run of
  whitespace becomes \<open>\s+\<close>, other characters stand for themselves; the expression is
  matched with \<open>re.IGNORECASE\<close> at the start of the input, and input left over after the
  match is an error.
\<close>

datatype fitem = F_b | F_B | F_d | F_m | F_Y | F_y | F_ws | F_lit string

definition nonzero_digit :: "char \<Rightarrow> bool" where
  "nonzero_digit c \<longleftrightarrow> c \<in> set ''123456789''"

text \<open>
  \<open>%d\<close> is \<open>3[0-1]|[1-2]\d|0[1-9]|[1-9]| [1-9]\<close>, \<open>%m\<close> is \<open>1[0-2]|0[1-9]|[1-9]\<close>, \<open>%Y\<close> is
  \<open>\d\d\d\d\<close>, \<open>%y\<close> is \<open>\d\d\<close>; \<open>%b\<close> and \<open>%B\<close> are the alternatives of the month names,
  longest first.
\<close>

fun rx_of :: "fitem \<Rightarrow> rx" where
  "rx_of F_d =
     Alts [Seq (Lit ''3'') (One (\<lambda>c. c \<in> set ''01'')),
           Seq (One (\<lambda>c. c \<in> set ''12'')) (One is_digit),
           Seq (Lit ''0'') (One nonzero_digit),
           One nonzero_digit,
           Seq (Lit '' '') (One nonzero_digit)]"
| "rx_of F_m =
     Alts [Seq (Lit ''1'') (One (\<lambda>c. c \<in> set ''012'')),
           Seq (Lit ''0'') (One nonzero_digit),
           One nonzero_digit]"
| "rx_of F_Y = Cls is_digit 4 (Some 4)"
| "rx_of F_y = Cls is_digit 2 (Some 2)"
| "rx_of F_b = Alts (map Lit MONTH_ABBR)"
| "rx_of F_B =
     Alts (map Lit [''September'', ''February'', ''November'', ''December'', ''January'',
                    ''October'', ''August'', ''March'', ''April'', ''June'', ''July'', ''May''])"
| "rx_of F_ws = Plus is_space"
| "rx_of (F_lit l) = Lit l"

text \<open>The matches of a format from a position, with the text of every directive.\<close>

fun fmt_match ::
  "fitem list \<Rightarrow> (fitem \<times> string) list \<Rightarrow> pos \<Rightarrow> ((fitem \<times> string) list \<times> pos) list" where
  "fmt_match [] caps p = [(caps, p)]"
| "fmt_match (f # fs) caps p =
     concat (map (\<lambda>q. fmt_match fs (caps @ [(f, between p q)]) q) (rmatch True (rx_of f) p))"

definition index_of :: "string \<Rightarrow> string list \<Rightarrow> nat" where
  "index_of x xs = length (takeWhile (\<lambda>y. y \<noteq> x) xs)"

text \<open>
  The field values: a two-digit year up to 68 is in 2000, above in 1900; without a
  directive the year is 1900 and month and day are 1.
\<close>

definition cap_year :: "(fitem \<times> string) list \<Rightarrow> nat" where
  "cap_year caps =
     (case map_of caps F_Y of
        Some t \<Rightarrow> int_of_digits t
      | None \<Rightarrow>
          (case map_of caps F_y of
             Some t \<Rightarrow> (if int_of_digits t \<le> 68 then 2000 + int_of_digits t
                        else 1900 + int_of_digits t)
           | None \<Rightarrow> 1900))"

definition cap_month :: "(fitem \<times> string) list \<Rightarrow> nat" where
  "cap_month caps =
     (case map_of caps F_m of
        Some t \<Rightarrow> int_of_digits t
      | None \<Rightarrow>
          (case map_of caps F_B of
             Some t \<Rightarrow> Suc (index_of (lower t) (map lower MONTH_FULL))
           | None \<Rightarrow>
               (case map_of caps F_b of
                  Some t \<Rightarrow> Suc (index_of (lower t) (map lower MONTH_ABBR))
                | None \<Rightarrow> 1)))"

definition cap_day :: "(fitem \<times> string) list \<Rightarrow> nat" where
  "cap_day caps = (case map_of caps F_d of Some t \<Rightarrow> int_of_digits (strip t) | None \<Rightarrow> 1)"

text \<open>
  \<open>datetime.strptime(s, fmt).date()\<close>: \<open>ValueError\<close> when the format does not match, when
  input is left over, or when the fields are not a date.
\<close>

definition strptime :: "string \<Rightarrow> fitem list \<Rightarrow> date result" where
  "strptime s fmt =
     (case fmt_match fmt [] ([], s) of
        [] \<Rightarrow> Raise ValueError
      | (caps, p) # _ \<Rightarrow>
          (if snd p \<noteq> [] then Raise ValueError
           else if valid_date (cap_year caps) (cap_month caps) (cap_day caps)
           then Return (Date (cap_year caps) (cap_month caps) (cap_day caps))
           else Raise ValueError))"

text \<open>The formats \<open>"%b %d, %Y"\<close>, \<open>"%B %d, %Y"\<close>, \<open>"%m/%d/%Y"\<close>, \<open>"%m/%d/%y"\<close> and, for the
  Amex script, \<open>"%b %d, %y"\<close> and \<open>"%B %d, %y"\<close>.\<close>

definition fmt_b_d_Y :: "fitem list" where
  "fmt_b_d_Y = [F_b, F_ws, F_d, F_lit '','', F_ws, F_Y]"

definition fmt_B_d_Y :: "fitem list" where
  "fmt_B_d_Y = [F_B, F_ws, F_d, F_lit '','', F_ws, F_Y]"

definition fmt_m_d_Y :: "fitem list" where
  "fmt_m_d_Y = [F_m, F_lit ''/'', F_d, F_lit ''/'', F_Y]"

definition fmt_m_d_y :: "fitem list" where
  "fmt_m_d_y = [F_m, F_lit ''/'', F_d, F_lit ''/'', F_y]"



text \<open>
  The loop \<open>for fmt in (...): try: return strptime(s, fmt) except Exception: pass\<close>.
\<close>

fun first_parsed :: "string \<Rightarrow> fitem list list \<Rightarrow> date option" where
  "first_parsed s [] = None"
| "first_parsed s (f # fs) =
     (case strptime s f of Return d \<Rightarrow> Some d | Raise e \<Rightarrow> first_parsed s fs)"

section \<open>Parsing helpers of the Chase script\<close>

text \<open>The relative phrase: \<open>re.search(r"(\d+)\s+days", s, re.I)\<close>.\<close>

definition days_phrase :: "string \<Rightarrow> string option" where
  "days_phrase s = re_group1 True Eps (Plus is_digit) (Seq (Plus is_space) (Lit ''days'')) s"

definition try_parse_date_any :: "date \<Rightarrow> string \<Rightarrow> date option" where
  "try_parse_date_any today s0 =
     (if s0 = [] then None
      else (let s = strip s0
            in case first_parsed s [fmt_b_d_Y, fmt_B_d_Y, fmt_m_d_Y, fmt_m_d_y] of
                 Some d \<Rightarrow> Some d
               | None \<Rightarrow>
                   (case days_phrase s of
                      Some g \<Rightarrow> add_days today (int_of_digits g)
                    | None \<Rightarrow> None)))"

text \<open>\<open>normalize_date_out(s)\<close>, \<open>s\<close> being \<open>Optional[str]\<close>.\<close>

definition normalize_date_out :: "date \<Rightarrow> string option \<Rightarrow> string" where
  "normalize_date_out today s =
     (case try_parse_date_any today (case s of None \<Rightarrow> [] | Some t \<Rightarrow> t) of
        Some d \<Rightarrow> strftime_b_d_Y d
      | None \<Rightarrow> [])"

subsection \<open>\<open>parse_limits_local_expiration\<close>\<close>

definition digit_or_comma :: "char \<Rightarrow> bool" where
  "digit_or_comma c \<longleftrightarrow> is_digit c \<or> c = CHR '',''"

text \<open>The optional cents \<open>(?:\.\d{2})?\<close> and the amount \<open>\d[\d,]*(?:\.\d{2})?\<close>.\<close>

definition rx_cents :: rx where
  "rx_cents = Opt (Seq (Lit ''.'') (Cls is_digit 2 (Some 2)))"

definition rx_amount :: rx where
  "rx_amount = Seqs [One is_digit, Star digit_or_comma, rx_cents]"

text \<open>
  \<open>\$\s?([\d,]+(?:\.\d{2})?)\s*(?:cash\s*back\s*)?(?:maximum|max)\b\<close> with \<open>re.I\<close>, and
  \<open>[Mm]ax(?:imum)?[^$]{0,25}\$(\d[\d,]*(?:\.\d{2})?)\<close>.
\<close>

definition max_discount_1 :: "string \<Rightarrow> string option" where
  "max_discount_1 s =
     re_group1 True
       (Seq (Lit ''$'') (Cls is_space 0 (Some 1)))
       (Seq (Plus digit_or_comma) rx_cents)
       (Seqs [Star is_space,
              Opt (Seqs [Lit ''cash'', Star is_space, Lit ''back'', Star is_space]),
              Alt (Lit ''maximum'') (Lit ''max''),
              Wordb])
       s"

definition max_discount_2 :: "string \<Rightarrow> string option" where
  "max_discount_2 s =
     re_group1 False
       (Seqs [One (\<lambda>c. c \<in> set ''Mm''), Lit ''ax'', Opt (Lit ''imum''),
              Cls (\<lambda>c. c \<noteq> CHR ''$'') 0 (Some 25), Lit ''$''])
       rx_amount
       Eps
       s"

text \<open>\<open>(?:spend|purchase)[^$]{0,25}\$(\d[\d,]*(?:\.\d{2})?)\<close> with \<open>re.I\<close>, and
  \<open>\$(\d[\d,]*(?:\.\d{2})?)\<close> on the header's limit text.\<close>

definition min_spend_1 :: "string \<Rightarrow> string option" where
  "min_spend_1 s =
     re_group1 True
       (Seqs [Alt (Lit ''spend'') (Lit ''purchase''),
              Cls (\<lambda>c. c \<noteq> CHR ''$'') 0 (Some 25), Lit ''$''])
       rx_amount
       Eps
       s"

definition min_spend_2 :: "string \<Rightarrow> string option" where
  "min_spend_2 s = re_group1 False (Lit ''$'') rx_amount Eps s"

text \<open>
  The absolute phrase
  \<open>(?:Expires?|Offer expires|Exp\.)\s*(?:on\s*)?([A-Za-z]{3,9}\s+\d{1,2},\s*\d{2,4}|\d{1,2}/\d{1,2}/\d{2,4})\<close>
  and the relative phrase \<open>expires?\s+in\s+\d+\s+days\<close>, both with \<open>re.I\<close>.
\<close>

definition rx_month_day_year :: rx where
  "rx_month_day_year =
     Seqs [Cls is_alpha 3 (Some 9), Plus is_space, Cls is_digit 1 (Some 2), Lit '','',
           Star is_space, Cls is_digit 2 (Some 4)]"

definition rx_slash_date :: rx where
  "rx_slash_date =
     Seqs [Cls is_digit 1 (Some 2), Lit ''/'', Cls is_digit 1 (Some 2), Lit ''/'',
           Cls is_digit 2 (Some 4)]"

definition expires_absolute :: "string \<Rightarrow> string option" where
  "expires_absolute s =
     re_group1 True
       (Seqs [Alts [Seq (Lit ''Expire'') (Opt (Lit ''s'')), Lit ''Offer expires'', Lit ''Exp.''],
              Star is_space,
              Opt (Seq (Lit ''on'') (Star is_space))])
       (Alt rx_month_day_year rx_slash_date)
       Eps
       s"

definition expires_relative :: "string \<Rightarrow> string option" where
  "expires_relative s =
     re_group0 True
       (Seqs [Lit ''expire'', Opt (Lit ''s''), Plus is_space, Lit ''in'', Plus is_space,
              Plus is_digit, Plus is_space, Lit ''days''])
       s"

text \<open>
  The address shape \<open>\n\d{2,5}\s+.+\n[A-Za-z\s]+,\s*[A-Z]{2}\s+\d{5}\<close> (no flags; \<open>.\<close> is any
  character but the line feed).
\<close>

definition rx_address :: rx where
  "rx_address =
     Seqs [Lit [CHR 0x0A], Cls is_digit 2 (Some 5), Plus is_space,
           Plus (\<lambda>c. c \<noteq> CHR 0x0A), Lit [CHR 0x0A],
           Plus (\<lambda>c. is_alpha c \<or> is_space c), Lit '','', Star is_space,
           Cls is_upper 2 (Some 2), Plus is_space, Cls is_digit 5 (Some 5)]"

text \<open>
  The expiration of \<open>parse_limits_local_expiration\<close>: the absolute phrase first, the
  relative one otherwise, each handed to \<open>normalize_date_out\<close>; empty without either.
\<close>

definition parse_expiration :: "date \<Rightarrow> string \<Rightarrow> string" where
  "parse_expiration today terms_text =
     (case expires_absolute terms_text of
        Some g \<Rightarrow> normalize_date_out today (Some g)
      | None \<Rightarrow>
          (case expires_relative terms_text of
             Some g \<Rightarrow> normalize_date_out today (Some g)
           | None \<Rightarrow> []))"

text \<open>
  \<open>parse_limits_local_expiration(terms_text, hdr_limit)\<close> returns maximum discount,
  minimum spend, expiration and local flag.
\<close>

definition parse_limits_local_expiration ::
  "date \<Rightarrow> string \<Rightarrow> string \<Rightarrow> string \<times> string \<times> string \<times> string" where
  "parse_limits_local_expiration today terms_text hdr_limit =
     (let maxd = (case max_discount_1 terms_text of
                    Some g \<Rightarrow> ''$'' @ g
                  | None \<Rightarrow> (case max_discount_2 terms_text of
                                Some g \<Rightarrow> ''$'' @ g | None \<Rightarrow> []));
          mind = (case min_spend_1 terms_text of
                    Some g \<Rightarrow> ''$'' @ g
                  | None \<Rightarrow>
                      (if hdr_limit \<noteq> []
                       then (case min_spend_2 hdr_limit of Some g \<Rightarrow> ''$'' @ g | None \<Rightarrow> [])
                       else []));
          exp = parse_expiration today terms_text;
          local = (if re_search True (Lit ''Offer only applies to the following location'')
                        terms_text
                   then ''Yes''
                   else if re_search False rx_address terms_text then ''Yes'' else ''No'')
      in (maxd, (if mind \<noteq> [] then mind else ''None''), exp, local))"

section \<open>Parsing helpers of the Amex script\<close>




section \<open>Discount and brand extraction\<close>

subsection \<open>\<open>parse_discount_from_sources\<close>\<close>

text \<open>
  The four alternatives of the discount pattern, matched with \<open>re.I\<close>:
  \<open>\$\d[\d,]*(?:\.\d{2})?\s*(?:cash\s*)?back\<close>, \<open>\$\d[\d,]*(?:\.\d{2})?\s*off\<close>,
  \<open>\d{1,3}%\s*(?:cash\s*)?back\<close> and \<open>\d{1,3}%\s*off\<close>.
\<close>

definition rx_cash_back :: rx where
  "rx_cash_back = Seqs [Star is_space, Opt (Seq (Lit ''cash'') (Star is_space)), Lit ''back'']"

definition rx_currency_back :: rx where
  "rx_currency_back = Seqs [Lit ''$'', rx_amount, rx_cash_back]"

definition rx_currency_off :: rx where
  "rx_currency_off = Seqs [Lit ''$'', rx_amount, Star is_space, Lit ''off'']"

definition rx_percent_back :: rx where
  "rx_percent_back = Seqs [Cls is_digit 1 (Some 3), Lit ''%'', rx_cash_back]"

definition rx_percent_off :: rx where
  "rx_percent_off = Seqs [Cls is_digit 1 (Some 3), Lit ''%'', Star is_space, Lit ''off'']"

definition rx_discount :: rx where
  "rx_discount = Alts [rx_currency_back, rx_currency_off, rx_percent_back, rx_percent_off]"

fun parse_discount_from_sources :: "string list \<Rightarrow> string" where
  "parse_discount_from_sources [] = []"
| "parse_discount_from_sources (t # ts) =
     (if t = [] then parse_discount_from_sources ts
      else (case re_group0 True rx_discount t of
              Some g \<Rightarrow> strip g
            | None \<Rightarrow> parse_discount_from_sources ts))"

subsection \<open>\<open>extract_brand_smart\<close> (Chase)\<close>

text \<open>
  What the page gives the function.  A browser call that fails raises a
  \<open>WebDriverException\<close>, which every \<open>except Exception\<close> of the function catches; \<open>None\<close>
  stands for such a failure.  \<open>js_val\<close> is the value of the proximity script (the trimmed
  text, at most 80 characters long, of a sibling before the "added to card" marker, or the
  empty string).  \<open>hooks\<close> holds, for the selectors \<open>merchantName\<close>, \<open>brandName\<close>,
  \<open>div[class*='merchant'] span\<close> and \<open>div[class*='brand'] span\<close> in this order, the elements
  found, each with its text.  \<open>heads\<close> holds the headings found, each with its text.
\<close>

record brand_dom =
  js_val :: "string option"
  hooks :: "string option list option list"
  heads :: "string option list option"

definition BRAND_FALLBACK :: string where
  "BRAND_FALLBACK = ''Unknown Brand''"

text \<open>
  The price test of the hooks, \<open>cash\s*back|\$\d\<close>, and of the headings,
  \<open>cash\s*back|\$\d|about this deal\<close>, both with \<open>re.I\<close>.
\<close>

definition price_like :: "string \<Rightarrow> bool" where
  "price_like s \<longleftrightarrow>
     re_search True (Alt (Seqs [Lit ''cash'', Star is_space, Lit ''back''])
                         (Seq (Lit ''$'') (One is_digit))) s"

definition heading_excluded :: "string \<Rightarrow> bool" where
  "heading_excluded s \<longleftrightarrow>
     re_search True (Alts [Seqs [Lit ''cash'', Star is_space, Lit ''back''],
                           Seq (Lit ''$'') (One is_digit),
                           Lit ''about this deal'']) s"

text \<open>
  The test applied to the script's value is written \<open>r"cash\\s*back|\\$\\d"\<close>: in a raw
  string the doubled backslashes are literal backslashes, so the pattern asks for
  \<open>cash\<close>, a backslash, any number of \<open>s\<close>, \<open>back\<close>, or for a backslash, the end of the
  text, a backslash and \<open>d\<close>.
\<close>

definition price_like_js :: "string \<Rightarrow> bool" where
  "price_like_js s \<longleftrightarrow>
     re_search True (Alt (Seqs [Lit ''cash'', Lit [CHR 0x5C], Star (\<lambda>c. c \<in> set ''sS''),
                               Lit ''back''])
                         (Seqs [Lit [CHR 0x5C], Eol, Lit [CHR 0x5C], Lit ''d''])) s"

definition brand_from_js :: "string option \<Rightarrow> string option" where
  "brand_from_js r =
     (case r of
        None \<Rightarrow> None
      | Some val \<Rightarrow> if val \<noteq> [] \<and> \<not> price_like_js val then Some (strip val) else None)"

fun brand_from_hooks :: "string option list option list \<Rightarrow> string option" where
  "brand_from_hooks [] = None"
| "brand_from_hooks (probe # rest) =
     (case probe of
        None \<Rightarrow> brand_from_hooks rest
      | Some [] \<Rightarrow> brand_from_hooks rest
      | Some (None # _) \<Rightarrow> brand_from_hooks rest
      | Some (Some t # _) \<Rightarrow>
          (if strip t \<noteq> [] \<and> \<not> price_like (strip t) then Some (strip t)
           else brand_from_hooks rest))"

text \<open>
  The loop over \<open>heads[:6]\<close>; a heading whose text cannot be read ends the whole \<open>try\<close>
  block.
\<close>

fun brand_from_heads :: "string option list \<Rightarrow> string option" where
  "brand_from_heads [] = None"
| "brand_from_heads (None # hs) = None"
| "brand_from_heads (Some t # hs) =
     (if strip t \<noteq> [] \<and> \<not> heading_excluded (strip t)
         \<and> 2 \<le> length (strip t) \<and> length (strip t) \<le> 60
      then Some (strip t)
      else brand_from_heads hs)"

definition brand_from_page :: "brand_dom \<Rightarrow> string option" where
  "brand_from_page page =
     (case brand_from_hooks (hooks page) of
        Some b \<Rightarrow> Some b
      | None \<Rightarrow> (case heads page of None \<Rightarrow> None | Some hs \<Rightarrow> brand_from_heads (take 6 hs)))"

definition extract_brand_smart :: "brand_dom \<Rightarrow> string \<Rightarrow> string" where
  "extract_brand_smart page tile_guess =
     (case brand_from_js (js_val page) of
        Some b \<Rightarrow> b
      | None \<Rightarrow>
          (case brand_from_page page of
             Some b \<Rightarrow> b
           | None \<Rightarrow> if strip tile_guess \<noteq> [] then strip tile_guess else BRAND_FALLBACK))"

subsection \<open>\<open>infer_brand_from_text\<close> and the brand of a tile (Amex)\<close>

text \<open>
  \<open>[l.strip() for l in txt.splitlines() if l.strip()]\<close>.  \<open>split_lines\<close> cuts at every line
  boundary character; \<open>str.splitlines\<close> differs from it only in empty pieces (it takes
  \<open>\r\n\<close> as one boundary and yields no empty last line), which the filter drops.
\<close>

definition is_linebreak :: "char \<Rightarrow> bool" where
  "is_linebreak c \<longleftrightarrow> c \<in> set [CHR 0x0A, CHR 0x0D, CHR 0x0B, CHR 0x0C, CHR 0x1C, CHR 0x1D, CHR 0x1E,
                                   CHR 0x85]"

fun split_lines :: "string \<Rightarrow> string list" where
  "split_lines [] = [[]]"
| "split_lines (c # cs) =
     (if is_linebreak c then [] # split_lines cs
      else (case split_lines cs of [] \<Rightarrow> [[c]] | l # ls \<Rightarrow> (c # l) # ls))"

definition nonblank_lines :: "string \<Rightarrow> string list" where
  "nonblank_lines txt = map strip (filter (\<lambda>l. strip l \<noteq> []) (split_lines txt))"

text \<open>
  \<open>^Expires\b|^Spend\b|^Earn\b|View Details|Terms apply\<close>, \<open>MONEY_RE\<close>
  \<open>\$[\d,]+(?:\.\d{2})?\<close> and \<open>back|spend|earn|total|expires\<close>; the first and the last with
  \<open>re.I\<close>.
\<close>

definition boilerplate_line :: "string \<Rightarrow> bool" where
  "boilerplate_line l \<longleftrightarrow>
     re_search True (Alts [Seqs [Bol, Lit ''Expires'', Wordb], Seqs [Bol, Lit ''Spend'', Wordb],
                           Seqs [Bol, Lit ''Earn'', Wordb], Lit ''View Details'',
                           Lit ''Terms apply'']) l"

definition MONEY_RE :: rx where
  "MONEY_RE = Seqs [Lit ''$'', Plus digit_or_comma, rx_cents]"

definition offer_line :: "string \<Rightarrow> bool" where
  "offer_line l \<longleftrightarrow>
     re_search False MONEY_RE l
     \<and> re_search True (Alts [Lit ''back'', Lit ''spend'', Lit ''earn'', Lit ''total'',
                             Lit ''expires'']) l"

fun first_brand_line :: "string list \<Rightarrow> string" where
  "first_brand_line [] = ''Unknown Brand''"
| "first_brand_line (l # ls) =
     (if boilerplate_line l then first_brand_line ls
      else if offer_line l then first_brand_line ls
      else l)"

definition infer_brand_from_text :: "string \<Rightarrow> string" where
  "infer_brand_from_text txt = first_brand_line (take 6 (nonblank_lines txt))"

text \<open>
  The brand of \<open>extract_tile_data\<close>: the text of the tile's \<open>h3\<close> span when it can be read
  (\<open>None\<close>: the lookup raised) and is not blank, otherwise what \<open>infer_brand_from_text\<close>
  finds in the tile's text.
\<close>

definition amex_tile_brand :: "string option \<Rightarrow> string \<Rightarrow> string" where
  "amex_tile_brand h3 txt =
     (let brand = (case h3 of
                     None \<Rightarrow> ''Unknown Brand''
                   | Some t \<Rightarrow> if strip t \<noteq> [] then strip t else ''Unknown Brand'')
      in if brand = ''Unknown Brand'' then infer_brand_from_text txt else brand)"

section \<open>Navigation\<close>

text \<open>
  The browser as \<open>robust_get\<close> sees it.  A navigation attempt is the body of one \<open>try\<close>
  block: \<open>driver.get(url)\<close> (\<open>Direct\<close>) or the \<open>window.location.replace\<close> script
  (\<open>Script\<close>), the settle delay and the read of \<open>current_url\<close>.  \<open>nav_faults\<close> scripts the
  attempts to come: \<open>None\<close> for one that goes through, \<open>Some e\<close> for one that raises \<open>e\<close>;
  an exhausted script means success.  \<open>nav_log\<close> records the attempts made.
\<close>

datatype nav_kind = Direct | Script

record browser =
  nav_faults :: "exn option list"
  nav_log :: "(nav_kind \<times> string) list"

definition nav_attempt :: "nav_kind \<Rightarrow> string \<Rightarrow> browser \<Rightarrow> exn option \<times> browser" where
  "nav_attempt k url b =
     (case nav_faults b of
        [] \<Rightarrow> (None, b\<lparr>nav_log := nav_log b @ [(k, url)]\<rparr>)
      | f # fs \<Rightarrow> (f, b\<lparr>nav_faults := fs, nav_log := nav_log b @ [(k, url)]\<rparr>))"

text \<open>
  The loop of the Chase script's \<open>robust_get\<close>, by the number of rounds left.  The first
  \<open>try\<close> catches \<open>WebDriverException\<close> only, the second every \<open>Exception\<close>; what is not
  caught leaves the function.  After the loop \<open>sheet_log\<close> writes a warning row (it
  swallows its own failures; the row is not modelled) and the function returns \<open>False\<close>.
\<close>

fun robust_get_loop :: "string \<Rightarrow> nat \<Rightarrow> browser \<Rightarrow> bool result \<times> browser" where
  "robust_get_loop url 0 b = (Return False, b)"
| "robust_get_loop url (Suc n) b =
     (case nav_attempt Direct url b of
        (None, b1) \<Rightarrow> (Return True, b1)
      | (Some e, b1) \<Rightarrow>
          (if is_WebDriverException e then
             (case nav_attempt Script url b1 of
                (None, b2) \<Rightarrow> (Return True, b2)
              | (Some e2, b2) \<Rightarrow>
                  (if is_Exception e2 then robust_get_loop url n b2 else (Raise e2, b2)))
           else (Raise e, b1)))"

text \<open>\<open>robust_get(url, tries)\<close> runs \<open>max(1, tries)\<close> rounds; \<open>tries\<close> defaults to 2.\<close>

definition robust_get :: "string \<Rightarrow> int \<Rightarrow> browser \<Rightarrow> bool result \<times> browser" where
  "robust_get url tries b = robust_get_loop url (nat (max 1 tries)) b"

text \<open>The Amex script's \<open>robust_get(url)\<close>: one \<open>driver.get\<close>, \<open>WebDriverException\<close> caught.\<close>

definition amex_robust_get :: "string \<Rightarrow> browser \<Rightarrow> bool result \<times> browser" where
  "amex_robust_get url b =
     (case nav_attempt Direct url b of
        (None, b1) \<Rightarrow> (Return True, b1)
      | (Some e, b1) \<Rightarrow> (if is_WebDriverException e then (Return False, b1) else (Raise e, b1)))"

text \<open>
  For the statements: the attempts of \<open>n\<close> full rounds, and the faults that are
  \<open>WebDriverException\<close>s.
\<close>

definition attempt_plan :: "string \<Rightarrow> nat \<Rightarrow> (nav_kind \<times> string) list" where
  "attempt_plan url n = concat (replicate n [(Direct, url), (Script, url)])"

definition webdriver_fault :: "exn option \<Rightarrow> bool" where
  "webdriver_fault f = (case f of None \<Rightarrow> True | Some e \<Rightarrow> is_WebDriverException e)"

definition failed_attempts :: "browser \<Rightarrow> nat" where
  "failed_attempts b = length (takeWhile (\<lambda>f. f \<noteq> None) (nav_faults b))"

section \<open>The enrollment loop of the Chase script\<close>

text \<open>
  What one poll of the page yields.  \<open>find_add_buttons\<close> returns the visible add buttons
  (its \<open>is_displayed\<close> calls are not guarded, so the poll itself can raise:
  \<open>PollCrash\<close>).  For every button the loop looks up the enclosing tile; \<open>None\<close> stands
  for a lookup that raised, which the loop skips.  A tile carries its fingerprint, its
  text, the brand guessed from its heading, and what clicking it leads to:
  \<open>ClickFailed\<close> when \<open>click_add_target\<close> returns \<open>False\<close>; \<open>Detail\<close> when the detail page
  appears, with the fields read there and the failure, if any, of \<open>quick_back\<close>;
  \<open>InPlace\<close> when it does not, with the page as \<open>extract_brand_smart\<close> finds it;
  \<open>Crash\<close> when an unguarded browser call raises before a row is built.
\<close>

record detail_page =
  header_disc :: string
  header_lim :: string
  card_name :: string
  last4 :: string
  terms :: string
  brand_page :: brand_dom

datatype click_outcome =
    Crash exn
  | ClickFailed
  | Detail detail_page "exn option"
  | InPlace brand_dom

record tile =
  fp :: string
  tile_text :: string
  tile_brand_guess :: string
  click :: click_outcome

datatype poll = PollCrash exn | Buttons "tile option list"

text \<open>
  The local variables of \<open>enroll_all_offers_for_current_card\<close> that hold rows and keys,
  the set \<open>existing_rows\<close> it shares with \<open>process_cards\<close>, and the global
  \<open>CURRENT_CARD_BUFFER\<close> (\<open>card_buffer\<close>).
\<close>

record ledger =
  processed_fps :: "string set"
  per_card_rows :: "row list"
  per_card_keys :: "row set"
  existing_rows :: "row set"
  added_total :: nat
  card_buffer :: "row list"

text \<open>Python's \<open>a or b or ...\<close> on strings: the first that is not empty, else the last.\<close>

fun first_nonempty :: "string list \<Rightarrow> string" where
  "first_nonempty [] = []"
| "first_nonempty [s] = s"
| "first_nonempty (s # ss) = (if s \<noteq> [] then s else first_nonempty ss)"

definition CARD_NAME_DEFAULT :: string where
  "CARD_NAME_DEFAULT = ''Chase Card''"

text \<open>The row of the detail path and the row of the tile-only path.\<close>

definition detail_row :: "string \<Rightarrow> date \<Rightarrow> tile \<Rightarrow> detail_page \<Rightarrow> row" where
  "detail_row holder today t d =
     (case parse_limits_local_expiration today (terms d) (header_lim d) of
        (maxd, mind, exp_norm, local) \<Rightarrow>
          (let disc_tile = parse_discount_from_sources [tile_text t];
               discount = first_nonempty
                  [parse_discount_from_sources [header_disc d, disc_tile, terms d, tile_text t],
                   header_disc d, disc_tile, ''Unknown''];
               brand = extract_brand_smart (brand_page d) (tile_brand_guess t)
           in [holder, last4 d, card_name d, brand, discount, maxd, mind,
               strftime_b_d_Y today, exp_norm, local]))"

definition inplace_row :: "string \<Rightarrow> date \<Rightarrow> tile \<Rightarrow> brand_dom \<Rightarrow> row" where
  "inplace_row holder today t page =
     (let disc_tile = parse_discount_from_sources [tile_text t];
          discount = first_nonempty [disc_tile, ''Unknown''];
          brand = (if tile_brand_guess t \<noteq> [] then tile_brand_guess t
                   else extract_brand_smart page (tile_brand_guess t))
      in [holder, ''XXXX'', CARD_NAME_DEFAULT, brand, discount, [], ''None'',
          strftime_b_d_Y today, [], ''No''])"

text \<open>
  \<open>key = tuple(row)\<close>; the row is queued only if its key is in neither \<open>existing_rows\<close>
  nor \<open>per_card_keys\<close>, and its key then joins both.
\<close>

definition record_row :: "row \<Rightarrow> ledger \<Rightarrow> ledger" where
  "record_row r led =
     (if r \<notin> existing_rows led \<and> r \<notin> per_card_keys led
      then led\<lparr>per_card_rows := per_card_rows led @ [r],
               card_buffer := card_buffer led @ [r],
               per_card_keys := insert r (per_card_keys led),
               existing_rows := insert r (existing_rows led),
               added_total := added_total led + 1\<rparr>
      else led)"

definition mark_processed :: "tile \<Rightarrow> ledger \<Rightarrow> ledger" where
  "mark_processed t led = led\<lparr>processed_fps := insert (fp t) (processed_fps led)\<rparr>"

text \<open>
  The \<open>for btn in buttons\<close> scan: the first button whose tile can be looked up and whose
  fingerprint has not been processed.
\<close>

fun pick :: "string set \<Rightarrow> tile option list \<Rightarrow> tile option" where
  "pick fps [] = None"
| "pick fps (None # bs) = pick fps bs"
| "pick fps (Some t # bs) = (if fp t \<in> fps then pick fps bs else Some t)"

text \<open>
  The \<open>while True\<close> loop.  \<open>env i\<close> is what the \<open>i\<close>-th poll yields; \<open>idle\<close> and \<open>safety\<close>
  are \<open>idle_cycles\<close> and \<open>safety_clicks\<close>.  The result is the exception that left the
  loop, if any, the number of polls made so far and the ledger.
\<close>

function enroll_loop ::
  "string \<Rightarrow> date \<Rightarrow> (nat \<Rightarrow> poll) \<Rightarrow> nat \<Rightarrow> nat \<Rightarrow> nat \<Rightarrow> ledger
     \<Rightarrow> exn option \<times> nat \<times> ledger" where
  "enroll_loop holder today env i idle safety led =
     (case env i of
        PollCrash e \<Rightarrow> (Some e, Suc i, led)
      | Buttons bs \<Rightarrow>
          (case pick (processed_fps led) bs of
             None \<Rightarrow>
               (if idle + 1 \<ge> 3 then (None, Suc i, led)
                else enroll_loop holder today env (Suc i) (idle + 1) safety led)
           | Some t \<Rightarrow>
               (if safety + 1 > 200 then (None, Suc i, led)
                else
                  (case click t of
                     Crash e \<Rightarrow> (Some e, Suc i, led)
                   | ClickFailed \<Rightarrow>
                       enroll_loop holder today env (Suc i) 0 (safety + 1) (mark_processed t led)
                   | Detail d back \<Rightarrow>
                       (case back of
                          Some e \<Rightarrow> (Some e, Suc i, record_row (detail_row holder today t d) led)
                        | None \<Rightarrow>
                            enroll_loop holder today env (Suc i) 0 (safety + 1)
                              (mark_processed t (record_row (detail_row holder today t d) led)))
                   | InPlace page \<Rightarrow>
                       enroll_loop holder today env (Suc i) 0 (safety + 1)
                         (mark_processed t (record_row (inplace_row holder today t page) led))))))"
  by pat_completeness auto
termination
  by (relation "measure (\<lambda>(holder, today, env, i, idle, safety, led).
                   (200 - safety) * 4 + (3 - idle))") auto

declare enroll_loop.simps [simp del]

text \<open>
  \<open>enroll_all_offers_for_current_card(existing_rows)\<close>: the buffer of the current card is
  reset, the loop runs, and the rows of the card, if any, are appended in one call.
  When the append or the filter reset after it raises, the rows are added to
  \<open>APPEND_BUFFER\<close>.  The result is \<open>added_total\<close>, or the exception that left the loop;
  the updated \<open>existing_rows\<close> comes back as well.
\<close>

definition enroll_all_offers_for_current_card ::
  "string \<Rightarrow> date \<Rightarrow> (nat \<Rightarrow> poll) \<Rightarrow> row set \<Rightarrow> world \<Rightarrow> nat result \<times> row set \<times> world" where
  "enroll_all_offers_for_current_card holder today env existing w =
     (case enroll_loop holder today env 0 0 0
             \<lparr>processed_fps = {}, per_card_rows = [], per_card_keys = {},
              existing_rows = existing, added_total = 0, card_buffer = []\<rparr> of
        (r, n, led) \<Rightarrow>
          (let w1 = w\<lparr>CURRENT_CARD_BUFFER := card_buffer led\<rparr>
           in case r of
                Some e \<Rightarrow> (Raise e, existing_rows led, w1)
              | None \<Rightarrow>
                  (if per_card_rows led \<noteq> [] then
                     (case append_rows (per_card_rows led) (snk w1) of
                        (Raise e, s1) \<Rightarrow>
                          (Return (added_total led), existing_rows led,
                           w1\<lparr>APPEND_BUFFER := APPEND_BUFFER w1 @ per_card_rows led, snk := s1\<rparr>)
                      | (Return u, s1) \<Rightarrow>
                          (case reset_filters_full_range s1 of
                             (Raise e, s2) \<Rightarrow>
                               (Return (added_total led), existing_rows led,
                                w1\<lparr>CURRENT_CARD_BUFFER := [],
                                   APPEND_BUFFER := APPEND_BUFFER w1 @ per_card_rows led,
                                   snk := s2\<rparr>)
                           | (Return u2, s2) \<Rightarrow>
                               (Return (added_total led), existing_rows led,
                                w1\<lparr>CURRENT_CARD_BUFFER := [], snk := s2\<rparr>)))
                   else (Return (added_total led), existing_rows led, w1))))"

section \<open>The adding loop of the Amex script\<close>

text \<open>
  The Amex script's \<open>flush_buffer\<close>: one \<open>append_rows\<close> call for the whole buffer, whose
  failure \<open>append_rows_now\<close> catches and logs; the buffer is emptied afterwards.
\<close>

definition amex_flush_buffer :: "world \<Rightarrow> world" where
  "amex_flush_buffer w =
     (if APPEND_BUFFER w \<noteq> []
      then (case append_rows (APPEND_BUFFER w) (snk w) of
              (r, s1) \<Rightarrow> w\<lparr>APPEND_BUFFER := [], snk := s1\<rparr>)
      else w)"

text \<open>
  What \<open>extract_tile_data\<close> returns for the tile of a button: brand, discount, minimum
  spend, maximum total and expiration.  \<open>plus_buttons_snapshot\<close> and the helpers called
  on the first button are guarded throughout, so a poll yields a list of buttons, here
  each with the data of its tile, and nothing in the loop body raises.
\<close>

record amex_offer =
  o_brand :: string
  o_discount :: string
  o_min_spend :: string
  o_max_total :: string
  o_exp :: string

definition amex_row :: "string \<Rightarrow> string \<Rightarrow> string \<Rightarrow> date \<Rightarrow> amex_offer \<Rightarrow> row" where
  "amex_row holder last_four name today off =
     [holder, last_four, name,
      first_nonempty [o_brand off, ''Unknown Brand''],
      first_nonempty [o_discount off, ''Unknown''],
      o_max_total off,
      first_nonempty [o_min_spend off, ''None''],
      strftime_b_d_Y today,
      o_exp off,
      ''No'']"

definition MICRO_BATCH :: nat where
  "MICRO_BATCH = 3"

text \<open>
  The \<open>while True\<close> loop of \<open>add_all_offers_for_current_card\<close>; \<open>idle\<close> and \<open>safety\<close> are
  \<open>idle_rounds\<close> and \<open>safety_clicks\<close>.  The result is the number of polls made so far,
  \<open>added_count\<close> and the world.
\<close>

function amex_add_loop ::
  "(amex_offer \<Rightarrow> row) \<Rightarrow> (nat \<Rightarrow> amex_offer list) \<Rightarrow> nat \<Rightarrow> nat \<Rightarrow> nat \<Rightarrow> nat \<Rightarrow> world
     \<Rightarrow> nat \<times> nat \<times> world" where
  "amex_add_loop mk env i idle safety added w =
     (case env i of
        [] \<Rightarrow>
          (if idle + 1 \<ge> 2 then (Suc i, added, w)
           else amex_add_loop mk env (Suc i) (idle + 1) safety added w)
      | off # _ \<Rightarrow>
          (let w1 = w\<lparr>APPEND_BUFFER := APPEND_BUFFER w @ [mk off]\<rparr>;
               w2 = (if length (APPEND_BUFFER w1) \<ge> MICRO_BATCH then amex_flush_buffer w1 else w1)
           in if safety + 1 > 800 then (Suc i, added + 1, w2)
              else amex_add_loop mk env (Suc i) 0 (safety + 1) (added + 1) w2))"
  by pat_completeness auto
termination
  by (relation "measure (\<lambda>(mk, env, i, idle, safety, added, w).
                   (800 - safety) * 3 + (2 - idle))") auto

declare amex_add_loop.simps [simp del]

definition add_all_offers_for_current_card ::
  "string \<Rightarrow> string \<Rightarrow> string \<Rightarrow> date \<Rightarrow> (nat \<Rightarrow> amex_offer list) \<Rightarrow> world \<Rightarrow> nat \<times> world" where
  "add_all_offers_for_current_card holder name last_four today env w =
     (case amex_add_loop (amex_row holder last_four name today) env 0 0 0 0 w of
        (n, added, w1) \<Rightarrow> (added, w1))"

section \<open>The run orchestrator of the Chase script\<close>

subsection \<open>Sheet maintenance: \<open>normalize_sheet_dates\<close>\<close>

text \<open>\<open>update_cell(r, c, v)\<close>, rows and columns counted from 1.\<close>

definition update_cell :: "nat \<Rightarrow> nat \<Rightarrow> string \<Rightarrow> sink \<Rightarrow> unit result \<times> sink" where
  "update_cell r c v s =
     (let (bad, s1) = api_call s
      in if bad then (Raise APIError, s1)
         else (Return (),
               s1\<lparr>sheet := (sheet s1)[r - 1 := ((sheet s1) ! (r - 1))[c - 1 := v]]\<rparr>))"

text \<open>
  The updates collected for the cells of columns 7 and 8 (date added, expiration) of
  every row after the header: the cell's stripped text is normalized, and an update is
  due when the result is not empty and differs from it.
\<close>

definition cell_update :: "date \<Rightarrow> row list \<Rightarrow> nat \<Rightarrow> nat \<Rightarrow> (nat \<times> nat \<times> string) list" where
  "cell_update today rows i col_idx =
     (let raw = (if col_idx < length (rows ! i) then strip (rows ! i ! col_idx) else []);
          norm = (if raw \<noteq> [] then normalize_date_out today (Some raw) else [])
      in if norm \<noteq> [] \<and> norm \<noteq> raw then [(i + 1, col_idx + 1, norm)] else [])"

definition date_updates :: "date \<Rightarrow> row list \<Rightarrow> (nat \<times> nat \<times> string) list" where
  "date_updates today rows =
     concat (map (\<lambda>i. cell_update today rows i 7 @ cell_update today rows i 8)
                 [1 ..< length rows])"

fun apply_updates :: "(nat \<times> nat \<times> string) list \<Rightarrow> sink \<Rightarrow> unit result \<times> sink" where
  "apply_updates [] s = (Return (), s)"
| "apply_updates ((r, c, v) # us) s =
     (case update_cell r c v s of
        (Raise e, s1) \<Rightarrow> (Raise e, s1)
      | (Return u, s1) \<Rightarrow> apply_updates us s1)"

definition normalize_sheet_dates :: "date \<Rightarrow> sink \<Rightarrow> unit result \<times> sink" where
  "normalize_sheet_dates today s =
     (case get_all_values s of
        (Raise e, s1) \<Rightarrow> (Raise e, s1)
      | (Return rows, s1) \<Rightarrow> apply_updates (date_updates today rows) s1)"

subsection \<open>\<open>process_cards\<close>\<close>

definition ACCOUNT_IDS :: "string list" where
  "ACCOUNT_IDS = [''1091891200'', ''571406113'', ''504430043'', ''1095857180'']"

text \<open>
  What the page does for one account in one pass: the result of
  \<open>go_to_categories_for\<close> (it returns whether the offers view was reached; some of its
  browser calls are not guarded, so it can raise) and the polls of the enrollment loop.
\<close>

record card_env =
  c_nav :: "bool result"
  c_polls :: "nat \<Rightarrow> poll"

text \<open>
  The \<open>for\<close> loop over the accounts.  The body is one \<open>try\<close> block whose
  \<open>except Exception\<close> logs and goes on to the next account; the counters it keeps are
  only printed.
\<close>

fun cards_loop ::
  "string \<Rightarrow> date \<Rightarrow> (string \<Rightarrow> card_env) \<Rightarrow> string list \<Rightarrow> row set \<Rightarrow> world
     \<Rightarrow> unit result \<times> world" where
  "cards_loop holder today envf [] existing w = (Return (), w)"
| "cards_loop holder today envf (acc # rest) existing w =
     (let w1 = w\<lparr>events := events w @ [Visit acc]\<rparr>
      in case c_nav (envf acc) of
           Raise e \<Rightarrow>
             (if is_Exception e then cards_loop holder today envf rest existing w1
              else (Raise e, w1))
         | Return False \<Rightarrow> cards_loop holder today envf rest existing w1
         | Return True \<Rightarrow>
             (case enroll_all_offers_for_current_card holder today (c_polls (envf acc)) existing
                     (w1\<lparr>events := events w1 @ [Enroll acc]\<rparr>) of
                (Raise e, existing', w2) \<Rightarrow>
                  (if is_Exception e then cards_loop holder today envf rest existing' w2
                   else (Raise e, w2))
              | (Return added, existing', w2) \<Rightarrow>
                  cards_loop holder today envf rest existing' w2))"

text \<open>
  \<open>process_cards()\<close>: the baseline is every row of the sheet but the first, read once at
  the start; the read is not guarded.
\<close>

definition process_cards ::
  "string \<Rightarrow> date \<Rightarrow> (string \<Rightarrow> card_env) \<Rightarrow> world \<Rightarrow> unit result \<times> world" where
  "process_cards holder today envf w =
     (case get_all_values (snk w) of
        (Raise e, s1) \<Rightarrow> (Raise e, w\<lparr>snk := s1\<rparr>)
      | (Return rows, s1) \<Rightarrow>
          cards_loop holder today envf ACCOUNT_IDS (set (tl rows)) (w\<lparr>snk := s1\<rparr>))"

subsection \<open>\<open>main\<close>\<close>

text \<open>
  The configuration read from the environment, and what the outside does during one
  run: the browser at the first navigation, the result of \<open>wait_for_post_login\<close>, the
  page during the two passes, and the failure, if any, of \<open>driver.quit()\<close>.
\<close>

record config =
  cfg_holder :: string
  cfg_today :: date
  cfg_chunk :: int
  cfg_close :: bool

record run_env =
  e_home :: browser
  e_login :: "bool result"
  e_pass1 :: "string \<Rightarrow> card_env"
  e_pass2 :: "string \<Rightarrow> card_env"
  e_quit :: "exn option"

definition CHASE_HOME_URL :: string where
  "CHASE_HOME_URL = ''https://www.chase.com/''"

text \<open>The maintenance steps at the end of the \<open>try\<close> block.\<close>

definition maintenance :: "date \<Rightarrow> sink \<Rightarrow> unit result \<times> sink" where
  "maintenance today s =
     (case normalize_sheet_dates today s of
        (Raise e, s1) \<Rightarrow> (Raise e, s1)
      | (Return u, s1) \<Rightarrow>
          (case dedupe_rows s1 of
             (Raise e, s2) \<Rightarrow> (Raise e, s2)
           | (Return n, s2) \<Rightarrow> reset_filters_full_range s2))"

text \<open>
  The \<open>try\<close> block of \<open>main\<close>.  \<open>prefill_home_login\<close> is guarded throughout and touches
  neither sink nor buffers.  A \<open>False\<close> from \<open>wait_for_post_login\<close> is the early
  \<open>return\<close>.
\<close>

definition main_try :: "config \<Rightarrow> run_env \<Rightarrow> world \<Rightarrow> unit result \<times> world" where
  "main_try cfg env w =
     (case robust_get CHASE_HOME_URL 1 (e_home env) of
        (Raise e, b) \<Rightarrow> (Raise e, w)
      | (Return ok, b) \<Rightarrow>
          (case e_login env of
             Raise e \<Rightarrow> (Raise e, w)
           | Return False \<Rightarrow> (Return (), w)
           | Return True \<Rightarrow>
               (case process_cards (cfg_holder cfg) (cfg_today cfg) (e_pass1 env) w of
                  (Raise e, w1) \<Rightarrow> (Raise e, w1)
                | (Return u, w1) \<Rightarrow>
                    (case process_cards (cfg_holder cfg) (cfg_today cfg) (e_pass2 env) w1 of
                       (Raise e, w2) \<Rightarrow> (Raise e, w2)
                     | (Return u2, w2) \<Rightarrow>
                         (case maintenance (cfg_today cfg) (snk w2) of
                            (r, s3) \<Rightarrow> (r, w2\<lparr>snk := s3\<rparr>))))))"

text \<open>
  How a run ends: \<open>Finished\<close> when \<open>main\<close> returns, \<open>Escaped e\<close> when \<open>e\<close> leaves it.
\<close>

datatype exit_status = Finished | Escaped exn

text \<open>
  The handlers catch \<open>KeyboardInterrupt\<close> and every \<open>Exception\<close>; any other exception
  stays pending while the \<open>finally\<close> clause runs.
\<close>

definition pending_after :: "unit result \<Rightarrow> exn option" where
  "pending_after r =
     (case r of
        Return u \<Rightarrow> None
      | Raise e \<Rightarrow> if e = KeyboardInterrupt \<or> is_Exception e then None else Some e)"

text \<open>
  \<open>main\<close>: the \<open>try\<close> block, the handlers, and the \<open>finally\<close> clause, which calls
  \<open>flush_buffer\<close> first.  Then \<open>safe_quit\<close> closes the browser (it ignores
  \<open>InvalidSessionIdException\<close> only), or, with \<open>CLOSE_ON_EXIT\<close> off, the script sleeps
  until the operator interrupts it; the model takes that wait as over.
\<close>

definition main :: "config \<Rightarrow> run_env \<Rightarrow> world \<Rightarrow> exit_status \<times> world" where
  "main cfg env w =
     (case main_try cfg env w of
        (r, w1) \<Rightarrow>
          (case flush_buffer (cfg_chunk cfg) w1 of
             (Raise e, w2) \<Rightarrow> (Escaped e, w2)
           | (Return u, w2) \<Rightarrow>
               (if cfg_close cfg \<and> e_quit env \<noteq> None
                     \<and> e_quit env \<noteq> Some InvalidSessionIdException
                then (Escaped (the (e_quit env)), w2)
                else (case pending_after r of
                        None \<Rightarrow> (Finished, w2)
                      | Some e \<Rightarrow> (Escaped e, w2)))))"

section \<open>The run orchestrator of the Amex script\<close>

text \<open>
  The Amex script's \<open>main\<close> has the same shape: a \<open>try\<close> block (taken here as a
  parameter: any function from the world to a result and a world), handlers for
  \<open>WebDriverException\<close> and for every \<open>Exception\<close>, and a \<open>finally\<close> clause that calls
  \<open>flush_buffer\<close> first and then closes the browser, ignoring every \<open>Exception\<close>, or waits
  for the operator.  A \<open>KeyboardInterrupt\<close> is not handled and leaves \<open>main\<close> after the
  \<open>finally\<close> clause.
\<close>

definition amex_main ::
  "(world \<Rightarrow> unit result \<times> world) \<Rightarrow> bool \<Rightarrow> exn option \<Rightarrow> world \<Rightarrow> exit_status \<times> world" where
  "amex_main try_block auto_close quit_fault w =
     (case try_block w of
        (r, w1) \<Rightarrow>
          (let w2 = amex_flush_buffer w1
           in if auto_close \<and> quit_fault \<noteq> None \<and> \<not> is_Exception (the quit_fault)
              then (Escaped (the quit_fault), w2)
              else (case r of
                      Return u \<Rightarrow> (Finished, w2)
                    | Raise e \<Rightarrow> if is_Exception e then (Finished, w2) else (Escaped e, w2))))"

section \<open>Auxiliary functions of the proofs\<close>

text \<open>Keeps the first occurrence of every row that is not in \<open>seen\<close>.\<close>

fun keep :: "row set \<Rightarrow> row list \<Rightarrow> row list" where
  "keep seen [] = []"
| "keep seen (x # r) = (if x \<in> seen then keep seen r else x # keep (insert x seen) r)"

text \<open>
  A row that is in none of the \<open>append_rows\<close> calls made after the first \<open>n\<close> ones and
  is queued in neither buffer.
\<close>

definition never_appended :: "nat \<Rightarrow> row \<Rightarrow> world \<Rightarrow> bool" where
  "never_appended n k w \<longleftrightarrow>
     k \<notin> set (concat (drop n (calls (snk w)))) \<and> k \<notin> set (APPEND_BUFFER w)
     \<and> k \<notin> set (CURRENT_CARD_BUFFER w)"

text \<open>
  The events of one pass in which no exception leaves \<open>process_cards\<close>: every account is
  visited in order, and the enrollment loop is started for those whose offers view was
  reached.
\<close>

definition pass_trace :: "(string \<Rightarrow> card_env) \<Rightarrow> event list" where
  "pass_trace envf =
     concat (map (\<lambda>acc. Visit acc # (if c_nav (envf acc) = Return True then [Enroll acc] else []))
                 ACCOUNT_IDS)"

text \<open>An environment that raises nothing but \<open>Exception\<close>s: no interrupt, no exit.\<close>

fun calm_click :: "click_outcome \<Rightarrow> bool" where
  "calm_click (Crash e) = is_Exception e"
| "calm_click ClickFailed = True"
| "calm_click (Detail d None) = True"
| "calm_click (Detail d (Some e)) = is_Exception e"
| "calm_click (InPlace page) = True"

fun calm_poll :: "poll \<Rightarrow> bool" where
  "calm_poll (PollCrash e) = is_Exception e"
| "calm_poll (Buttons bs) = list_all (\<lambda>b. case b of None \<Rightarrow> True | Some t \<Rightarrow> calm_click (click t)) bs"

definition calm_card :: "card_env \<Rightarrow> bool" where
  "calm_card c \<longleftrightarrow>
     (case c_nav c of Raise e \<Rightarrow> is_Exception e | Return ok \<Rightarrow> True)
     \<and> (\<forall>i. calm_poll (c_polls c i))"

section \<open>Properties of \<open>dedupe_rows\<close>\<close>

lemma dedupe_scan_acc: "dedupe_scan rows is seen req = req @ dedupe_scan rows is seen []"
proof (induction "is" arbitrary: seen req)
  case Nil show ?case by simp
next
  case (Cons i "is")
  show ?case
    using Cons.IH [of seen "req @ [i]"] Cons.IH [of seen "[i]"] Cons.IH [of "insert (rows ! i) seen" req]
    by simp
qed

lemma scan_fold:
  "fold delete_row (dedupe_scan (h # xs @ ys) (rev [1 ..< Suc (length xs)]) seen []) (h # xs @ zs)
     = h # rev (keep seen (rev xs)) @ zs
   \<and> length (dedupe_scan (h # xs @ ys) (rev [1 ..< Suc (length xs)]) seen [])
       + length (keep seen (rev xs)) = length xs"
proof (induction xs arbitrary: seen ys zs rule: rev_induct)
  case Nil show ?case by simp
next
  case (snoc x xs)
  have nth: "(h # (xs @ [x]) @ ys) ! Suc (length xs) = x" by (simp add: nth_append)
  have idx: "rev [1 ..< Suc (length (xs @ [x]))] = Suc (length xs) # rev [1 ..< Suc (length xs)]"
    by simp
  have del: "delete_row (Suc (length xs)) (h # (xs @ [x]) @ zs) = h # xs @ zs"
    by (simp add: delete_row_def)
  show ?case
  proof (cases "x \<in> seen")
    case True
    have sc: "dedupe_scan (h # (xs @ [x]) @ ys) (rev [1 ..< Suc (length (xs @ [x]))]) seen []
          = [Suc (length xs)] @ dedupe_scan (h # xs @ (x # ys)) (rev [1 ..< Suc (length xs)]) seen []"
      unfolding idx using True nth dedupe_scan_acc [of _ _ seen "[Suc (length xs)]"] by simp
    show ?thesis unfolding sc using snoc [of "x # ys" seen zs] True del by simp
  next
    case False
    have sc: "dedupe_scan (h # (xs @ [x]) @ ys) (rev [1 ..< Suc (length (xs @ [x]))]) seen []
          = dedupe_scan (h # xs @ (x # ys)) (rev [1 ..< Suc (length xs)]) (insert x seen) []"
      unfolding idx using False nth by simp
    show ?thesis unfolding sc using snoc [of "x # ys" "insert x seen" "x # zs"] False by simp
  qed
qed

lemma keep_remdups: "rev (keep seen (rev xs)) = filter (\<lambda>x. x \<notin> seen) (remdups xs)"
proof (induction xs arbitrary: seen rule: rev_induct)
  case Nil show ?case by simp
next
  case (snoc x xs)
  have r: "remdups (xs @ [x]) = filter (\<lambda>y. y \<noteq> x) (remdups xs) @ [x]"
    by (induction xs) auto
  show ?case
  proof (cases "x \<in> seen")
    case True
    then have "filter (\<lambda>y. y \<notin> seen) (filter (\<lambda>y. y \<noteq> x) (remdups xs)) = filter (\<lambda>y. y \<notin> seen) (remdups xs)"
      by (auto intro: filter_cong)
    then show ?thesis using True snoc [of seen] r by simp
  next
    case False
    have "filter (\<lambda>y. y \<notin> insert x seen) (remdups xs) = filter (\<lambda>y. y \<notin> seen) (filter (\<lambda>y. y \<noteq> x) (remdups xs))"
      by (auto intro: filter_cong)
    then show ?thesis using False snoc [of "insert x seen"] r by simp
  qed
qed



lemma dedupe_scan_remdups:
  "fold delete_row (dedupe_scan (h # data) (range_down (Suc (length data))) {} []) (h # data)
     = h # remdups data"
  "length (dedupe_scan (h # data) (range_down (Suc (length data))) {} [])
     = length data - length (remdups data)"
proof -
  let ?req = "dedupe_scan (h # data) (rev [1 ..< Suc (length data)]) {} []"
  have k: "rev (keep {} (rev data)) = remdups data"
    using keep_remdups [of "{}" data] by simp
  then have kl: "length (keep {} (rev data)) = length (remdups data)"
    by (metis length_rev)
  have a: "fold delete_row ?req (h # data) = h # rev (keep {} (rev data))"
    and b: "length ?req + length (keep {} (rev data)) = length data"
    using scan_fold [of h data "[]" "{}" "[]"] by simp_all
  show "fold delete_row (dedupe_scan (h # data) (range_down (Suc (length data))) {} []) (h # data)
     = h # remdups data"
    unfolding range_down_def using a k by simp
  show "length (dedupe_scan (h # data) (range_down (Suc (length data))) {} [])
     = length data - length (remdups data)"
    unfolding range_down_def using b kl by linarith
qed

lemma dedupe_rows_general:
  assumes "faults s = []" and "sheet s = h # data"
  shows "dedupe_rows s
           = (Return (length data - length (remdups data)), s\<lparr>sheet := h # remdups data\<rparr>)"
proof -
  let ?req = "dedupe_scan (h # data) (range_down (Suc (length data))) {} []"
  have g: "get_all_values s = (Return (h # data), s)"
    using assms by (simp add: get_all_values_def api_call_def)
  show ?thesis
  proof (cases "?req = []")
    case True
    with dedupe_scan_remdups [of h data] have "h # remdups data = h # data" by simp
    then have "s\<lparr>sheet := h # remdups data\<rparr> = s" using assms by simp
    then show ?thesis using True g dedupe_scan_remdups(2) [of h data]
      by (simp add: dedupe_rows_def)
  next
    case False
    then show ?thesis using g assms dedupe_scan_remdups [of h data]
      by (simp add: dedupe_rows_def batch_delete_def api_call_def)
  qed
qed

text \<open>
  Claim C5.  On a sheet holding the header and the rows \<open>A, B, A, C, B\<close> (three distinct
  rows), \<open>dedupe_rows\<close> deletes exactly two rows and leaves one row per distinct value.
  Its reverse scan requests rows 2 and 1, the first occurrences, so the last occurrence of
  each duplicate survives and the data rows left are \<open>A, C, B\<close>.  A forward scan would
  request two rows as well and leave one row per distinct value, in the order \<open>A, B, C\<close>.
\<close>

theorem dedupe_rows_fixture:
  assumes "distinct [A, B, C]" and "sheet s = [h, A, B, A, C, B]" and "faults s = []"
  shows "fst (dedupe_rows s) = Return 2
       \<and> sheet (snd (dedupe_rows s)) = [h, A, C, B]
       \<and> dedupe_scan (sheet s) (range_down (length (sheet s))) {} [] = [2, 1]
       \<and> (\<forall>v \<in> {A, B, C}. count_list (tl (sheet (snd (dedupe_rows s)))) v = 1)
       \<and> length (forward_scan (sheet s)) = 2
       \<and> survivors (sheet s) (forward_scan (sheet s)) = [h, A, B, C]
       \<and> (\<forall>v \<in> {A, B, C}. count_list (tl (survivors (sheet s) (forward_scan (sheet s)))) v = 1)"
proof -
  have ne: "A \<noteq> B" "B \<noteq> A" "A \<noteq> C" "C \<noteq> A" "B \<noteq> C" "C \<noteq> B"
    using assms(1) by auto
  have rd: "remdups [A, B, A, C, B] = [A, C, B]" using ne by simp
  have d: "dedupe_rows s = (Return 2, s\<lparr>sheet := [h, A, C, B]\<rparr>)"
    using dedupe_rows_general [OF assms(3), of h "[A, B, A, C, B]"] assms(2) rd by simp
  have up: "[1 ..< 6] = [1, 2, 3, 4, 5::nat]" by (simp add: upt_rec)
  have sc: "dedupe_scan (sheet s) (range_down (length (sheet s))) {} [] = [2, 1]"
    using ne assms(2) by (simp add: range_down_def up)
  have fw: "forward_scan (sheet s) = [3, 5]"
    using ne assms(2) by (simp add: forward_scan_def up)
  have en: "enumerate 0 [h, A, B, A, C, B] = [(0, h), (1, A), (2, B), (3, A), (4, C), (5, B)]"
    by (simp add: enumerate_eq_zip upt_rec)
  have sv: "survivors (sheet s) (forward_scan (sheet s)) = [h, A, B, C]"
    unfolding fw using assms(2) by (simp add: survivors_def en)
  show ?thesis unfolding sv using d sc fw ne by simp
qed

theorem dedupe_rows_fixture_witness:
  "fst (dedupe_rows \<lparr>sheet = [OFFER_HEADERS, [''A''], [''B''], [''A''], [''C''], [''B'']],
                      calls = [], faults = [], basic_filter = None\<rparr>) = Return 2
   \<and> sheet (snd (dedupe_rows \<lparr>sheet = [OFFER_HEADERS, [''A''], [''B''], [''A''], [''C''], [''B'']],
                      calls = [], faults = [], basic_filter = None\<rparr>))
       = [OFFER_HEADERS, [''A''], [''C''], [''B'']]"
  using dedupe_rows_fixture [of "[''A'']" "[''B'']" "[''C'']"
      "\<lparr>sheet = [OFFER_HEADERS, [''A''], [''B''], [''A''], [''C''], [''B'']],
        calls = [], faults = [], basic_filter = None\<rparr>" OFFER_HEADERS]
  by simp

section \<open>Properties of \<open>flush_buffer\<close>\<close>



lemma range_900: "range_step 900 400 = Return [0, 400, 800]"
  by (simp add: range_step_def upt_rec)

lemma flush_try_900_ok:
  assumes "length buf = 900" and "faults s = []"
  shows "calls (snd (flush_try 400 buf s))
           = calls s @ [take 400 buf, take 400 (drop 400 buf), drop 800 buf]"
    and "sheet (snd (flush_try 400 buf s)) = sheet s @ buf"
    and "fst (flush_try 400 buf s) = Return ()"
proof -
  have b: "buf = take 400 buf @ take 400 (drop 400 buf) @ drop 800 buf"
    by (metis append_take_drop_id drop_drop numeral_Bit0)
  show "calls (snd (flush_try 400 buf s))
           = calls s @ [take 400 buf, take 400 (drop 400 buf), drop 800 buf]"
    using assms
    by (simp add: flush_try_def range_900 append_rows_def api_call_def
        reset_filters_full_range_def get_all_values_def)
  show "fst (flush_try 400 buf s) = Return ()"
    using assms
    by (simp add: flush_try_def range_900 append_rows_def api_call_def
        reset_filters_full_range_def get_all_values_def)
  have "sheet (snd (flush_try 400 buf s)) = sheet s @ take 400 buf @ take 400 (drop 400 buf) @ drop 800 buf"
    using assms
    by (simp add: flush_try_def range_900 append_rows_def api_call_def
        reset_filters_full_range_def get_all_values_def)
  then show "sheet (snd (flush_try 400 buf s)) = sheet s @ buf" using b by simp
qed

lemma flush_try_900_second_fails:
  assumes "length buf = 900" and "faults s = [False, True]"
  shows "flush_try 400 buf s
           = (Raise APIError, s\<lparr>calls := calls s @ [take 400 buf, take 400 (drop 400 buf)],
                                  faults := [], sheet := sheet s @ take 400 buf\<rparr>)"
  using assms
  by (simp add: flush_try_def range_900 append_rows_def api_call_def)

text \<open>
  Claim C1.  With 900 buffered rows and a chunk size of 400, \<open>flush_buffer\<close> makes three
  \<open>append_rows\<close> calls of 400, 400 and 100 rows, in order, when the sink accepts them all.
  When the second call fails the loop stops after two calls, the sink has received the
  first 400 rows only, and the buffer is empty afterwards: the 500 rows that were never
  appended are not queued any more.
\<close>

theorem flush_buffer_900:
  assumes "length buf = 900" and "APPEND_BUFFER w = buf" and "CURRENT_CARD_BUFFER w = []"
  shows "(faults (snk w) = [] \<longrightarrow>
            fst (flush_buffer 400 w) = Return ()
          \<and> calls (snk (snd (flush_buffer 400 w)))
              = calls (snk w) @ [take 400 buf, take 400 (drop 400 buf), drop 800 buf]
          \<and> map length [take 400 buf, take 400 (drop 400 buf), drop 800 buf] = [400, 400, 100]
          \<and> sheet (snk (snd (flush_buffer 400 w))) = sheet (snk w) @ buf
          \<and> APPEND_BUFFER (snd (flush_buffer 400 w)) = [])
       \<and> (faults (snk w) = [False, True] \<longrightarrow>
            fst (flush_buffer 400 w) = Return ()
          \<and> calls (snk (snd (flush_buffer 400 w)))
              = calls (snk w) @ [take 400 buf, take 400 (drop 400 buf)]
          \<and> sheet (snk (snd (flush_buffer 400 w))) = sheet (snk w) @ take 400 buf
          \<and> APPEND_BUFFER (snd (flush_buffer 400 w)) = []
          \<and> CURRENT_CARD_BUFFER (snd (flush_buffer 400 w)) = [])"
proof -
  have ne: "buf \<noteq> []" using assms(1) by auto
  have fb: "flush_buffer 400 w =
      (case flush_try 400 buf (snk w) of
         (Raise e, s1) \<Rightarrow>
           (if is_Exception e then Return () else Raise e, w\<lparr>APPEND_BUFFER := [], snk := s1\<rparr>)
       | (Return u, s1) \<Rightarrow> (Return (), w\<lparr>APPEND_BUFFER := [], snk := s1\<rparr>))"
    using assms ne by (simp add: flush_buffer_def)
  have ok: "faults (snk w) = [] \<Longrightarrow>
      flush_buffer 400 w = (Return (), w\<lparr>APPEND_BUFFER := [], snk := snd (flush_try 400 buf (snk w))\<rparr>)"
    using flush_try_900_ok(3) [OF assms(1), of "snk w"] unfolding fb
    by (cases "flush_try 400 buf (snk w)") simp
  have bad: "faults (snk w) = [False, True] \<Longrightarrow>
      flush_buffer 400 w = (Return (), w\<lparr>APPEND_BUFFER := [],
         snk := (snk w)\<lparr>calls := calls (snk w) @ [take 400 buf, take 400 (drop 400 buf)],
                         faults := [], sheet := sheet (snk w) @ take 400 buf\<rparr>\<rparr>)"
    using flush_try_900_second_fails [OF assms(1), of "snk w"] unfolding fb by simp
  have sizes: "map length [take 400 buf, take 400 (drop 400 buf), drop 800 buf] = [400, 400, 100]"
    using assms(1) by simp
  show ?thesis
    using ok bad sizes flush_try_900_ok(1,2) [OF assms(1), of "snk w"] assms(3) by simp
qed

theorem flush_buffer_900_witness:
  "APPEND_BUFFER (snd (flush_buffer 400
      \<lparr>APPEND_BUFFER = replicate 900 [''offer''], CURRENT_CARD_BUFFER = [],
        snk = \<lparr>sheet = [OFFER_HEADERS], calls = [], faults = [False, True],
               basic_filter = None\<rparr>, events = []\<rparr>)) = []
   \<and> sheet (snk (snd (flush_buffer 400
      \<lparr>APPEND_BUFFER = replicate 900 [''offer''], CURRENT_CARD_BUFFER = [],
        snk = \<lparr>sheet = [OFFER_HEADERS], calls = [], faults = [False, True],
               basic_filter = None\<rparr>, events = []\<rparr>))) = OFFER_HEADERS # replicate 400 [''offer'']
   \<and> map length (calls (snk (snd (flush_buffer 400
      \<lparr>APPEND_BUFFER = replicate 900 [''offer''], CURRENT_CARD_BUFFER = [],
        snk = \<lparr>sheet = [OFFER_HEADERS], calls = [], faults = [False, True],
               basic_filter = None\<rparr>, events = []\<rparr>)))) = [400, 400]"
  using flush_buffer_900 [of "replicate 900 [''offer'']"
      "\<lparr>APPEND_BUFFER = replicate 900 [''offer''], CURRENT_CARD_BUFFER = [],
        snk = \<lparr>sheet = [OFFER_HEADERS], calls = [], faults = [False, True],
               basic_filter = None\<rparr>, events = []\<rparr>"]
  by simp

section \<open>Properties of brand extraction\<close>


lemma search_from_mono:
  assumes "\<And>p. m p \<noteq> [] \<Longrightarrow> m' p \<noteq> []"
  shows "search_from m b a \<noteq> None \<Longrightarrow> search_from m' b a \<noteq> None"
proof (induction a arbitrary: b)
  case Nil
  then have "m (b, []) \<noteq> []" by (auto split: list.splits)
  from assms [OF this] show ?case by (auto split: list.splits)
next
  case (Cons c a)
  show ?case
  proof (cases "m (b, c # a)")
    case Nil
    with Cons.prems have "search_from m (c # b) a \<noteq> None" by simp
    from Cons.IH [OF this] show ?thesis by (auto split: list.splits)
  next
    case (Cons y ys)
    then have "m (b, c # a) \<noteq> []" by simp
    from assms [OF this] show ?thesis by (auto split: list.splits)
  qed
qed

lemma price_like_heading_excluded:
  assumes "price_like s"
  shows "heading_excluded s"
proof -
  let ?a = "Seqs [Lit ''cash'', Star is_space, Lit ''back'']"
  let ?b = "Seq (Lit ''$'') (One is_digit)"
  have "\<And>p. rmatch True (Alt ?a ?b) p \<noteq> []
          \<Longrightarrow> rmatch True (Alts [?a, ?b, Lit ''about this deal'']) p \<noteq> []"
    by simp
  from search_from_mono [of "rmatch True (Alt ?a ?b)"
      "rmatch True (Alts [?a, ?b, Lit ''about this deal''])", OF this]
  show ?thesis using assms unfolding price_like_def heading_excluded_def re_search_def
    by blast
qed

lemma brand_from_hooks_clean: "brand_from_hooks hs = Some b \<Longrightarrow> \<not> price_like b"
  by (induction hs rule: brand_from_hooks.induct)
    (auto split: if_splits option.splits list.splits)

lemma brand_from_heads_clean:
  "brand_from_heads hs = Some b \<Longrightarrow> \<not> heading_excluded b \<and> 2 \<le> length b \<and> length b \<le> 60"
  by (induction hs rule: brand_from_heads.induct) (auto split: if_splits)

lemma brand_from_page_clean:
  assumes "brand_from_page page = Some b"
  shows "\<not> price_like b"
proof (cases "brand_from_hooks (hooks page)")
  case (Some c)
  with assms have "c = b" by (simp add: brand_from_page_def)
  with Some brand_from_hooks_clean show ?thesis by blast
next
  case None
  with assms obtain hs where "brand_from_heads hs = Some b"
    by (auto simp: brand_from_page_def split: option.splits)
  from brand_from_heads_clean [OF this] price_like_heading_excluded show ?thesis by blast
qed

lemma first_brand_line_cases:
  "first_brand_line ls = ''Unknown Brand''
   \<or> (first_brand_line ls \<in> set ls \<and> \<not> boilerplate_line (first_brand_line ls)
        \<and> \<not> offer_line (first_brand_line ls))"
  by (induction ls) auto

text \<open>
  Claim C7, as amended.  When the proximity script yields no brand, \<open>extract_brand_smart\<close>
  returns either a text from an attribute hook or a heading, which then has no match of
  \<open>cash\s*back|\$\d\<close>, or, when the page offers none, the stripped tile guess as it is, or,
  when that is blank too, exactly \<open>Unknown Brand\<close>.  \<open>infer_brand_from_text\<close> returns
  \<open>Unknown Brand\<close> or a line that is neither boilerplate nor an amount with an offer
  keyword, and \<open>Unknown Brand\<close> when the text has no line at all.  No path tests for a
  percentage.
\<close>

theorem brand_extraction_filters:
  "(brand_from_js (js_val page) = None \<longrightarrow>
      (case brand_from_page page of
         Some b \<Rightarrow> extract_brand_smart page tile_guess = b \<and> \<not> price_like b
       | None \<Rightarrow> extract_brand_smart page tile_guess
                  = (if strip tile_guess \<noteq> [] then strip tile_guess else ''Unknown Brand'')))
   \<and> (infer_brand_from_text txt = ''Unknown Brand''
      \<or> (\<not> boilerplate_line (infer_brand_from_text txt)
          \<and> \<not> offer_line (infer_brand_from_text txt)))
   \<and> (nonblank_lines txt = [] \<longrightarrow> infer_brand_from_text txt = ''Unknown Brand'')"
proof -
  have a: "brand_from_js (js_val page) = None \<Longrightarrow>
      (case brand_from_page page of
         Some b \<Rightarrow> extract_brand_smart page tile_guess = b \<and> \<not> price_like b
       | None \<Rightarrow> extract_brand_smart page tile_guess
                  = (if strip tile_guess \<noteq> [] then strip tile_guess else ''Unknown Brand''))"
    using brand_from_page_clean [of page]
    by (auto simp: extract_brand_smart_def BRAND_FALLBACK_def split: option.splits)
  have b: "infer_brand_from_text txt = ''Unknown Brand''
      \<or> (\<not> boilerplate_line (infer_brand_from_text txt)
          \<and> \<not> offer_line (infer_brand_from_text txt))"
    using first_brand_line_cases [of "take 6 (nonblank_lines txt)"]
    unfolding infer_brand_from_text_def by blast
  have c: "nonblank_lines txt = [] \<Longrightarrow> infer_brand_from_text txt = ''Unknown Brand''"
    by (simp add: infer_brand_from_text_def)
  show ?thesis using a b c by blast
qed

theorem brand_extraction_filters_witness:
  "extract_brand_smart \<lparr>js_val = None, hooks = [None, None, None, None], heads = None\<rparr> []
     = ''Unknown Brand''
   \<and> infer_brand_from_text [] = ''Unknown Brand''"
proof -
  have 1: "brand_from_js (js_val \<lparr>js_val = None, hooks = [None, None, None, None], heads = None\<rparr>)
             = None"
    by (simp add: brand_from_js_def)
  have 2: "brand_from_page \<lparr>js_val = None, hooks = [None, None, None, None], heads = None\<rparr>
             = None"
    by (simp add: brand_from_page_def)
  have 3: "strip [] = []" by (simp add: strip_def)
  have 4: "nonblank_lines [] = []" by (simp add: nonblank_lines_def strip_def)
  show ?thesis
    using brand_extraction_filters
      [of "\<lparr>js_val = None, hooks = [None, None, None, None], heads = None\<rparr>" "[]" "[]"]
      1 2 3 4
    by simp
qed

text \<open>
  The claim as stated fails: a hook text \<open>20% off\<close> is returned as the brand and matches
  the percentage alternative of the discount pattern; so does the line \<open>10% back\<close> for
  \<open>infer_brand_from_text\<close>.
\<close>

theorem brand_can_be_a_percentage:
  "extract_brand_smart
     \<lparr>js_val = Some [], hooks = [Some [Some ''20% off''], Some [], Some [], Some []],
      heads = Some []\<rparr> [] = ''20% off''
   \<and> re_search True rx_percent_off ''20% off''
   \<and> infer_brand_from_text ''10% back'' = ''10% back''
   \<and> re_search True rx_percent_back ''10% back''"
  by code_simp

section \<open>Properties of \<open>robust_get\<close>\<close>


lemma wde_is_Exception: "is_WebDriverException e \<Longrightarrow> is_Exception e"
  by (cases e) simp_all

lemma robust_get_loop_char:
  assumes "list_all webdriver_fault (nav_faults b)"
  shows "robust_get_loop url n b
           = (Return (failed_attempts b < 2 * n),
              b\<lparr>nav_faults := drop (min (2 * n) (Suc (failed_attempts b))) (nav_faults b),
                nav_log := nav_log b @ take (Suc (failed_attempts b)) (attempt_plan url n)\<rparr>)"
  using assms
proof (induction n arbitrary: b)
  case 0
  then show ?case by (simp add: attempt_plan_def)
next
  case (Suc n)
  show ?case
  proof (cases "nav_faults b")
    case Nil
    then show ?thesis
      by (simp add: nav_attempt_def failed_attempts_def attempt_plan_def)
  next
    case (Cons f fs)
    note c1 = Cons
    show ?thesis
    proof (cases f)
      case None
      then show ?thesis using c1
        by (simp add: nav_attempt_def failed_attempts_def attempt_plan_def)
    next
      case (Some e)
      with c1 Suc.prems have we: "is_WebDriverException e" by (simp add: webdriver_fault_def)
      let ?b1 = "b\<lparr>nav_faults := fs, nav_log := nav_log b @ [(Direct, url)]\<rparr>"
      have a1: "nav_attempt Direct url b = (Some e, ?b1)"
        using c1 Some by (simp add: nav_attempt_def)
      show ?thesis
      proof (cases fs)
        case Nil
        then show ?thesis using c1 Some we a1
          by (simp add: nav_attempt_def failed_attempts_def attempt_plan_def)
      next
        case (Cons f2 fs2)
        note c2 = Cons
        show ?thesis
        proof (cases f2)
          case None
          then show ?thesis using c1 c2 Some we a1
            by (simp add: nav_attempt_def failed_attempts_def attempt_plan_def)
        next
          case (Some e2)
          note s2 = Some
          with c1 c2 Suc.prems have we2: "is_WebDriverException e2"
            by (simp add: webdriver_fault_def)
          let ?b2 = "b\<lparr>nav_faults := fs2, nav_log := nav_log b @ [(Direct, url), (Script, url)]\<rparr>"
          have a2: "nav_attempt Script url ?b1 = (Some e2, ?b2)"
            using c2 s2 by (simp add: nav_attempt_def)
          have p: "list_all webdriver_fault (nav_faults ?b2)"
            using Suc.prems c1 c2 by simp
          have fa: "failed_attempts b = Suc (Suc (failed_attempts ?b2))"
            using c1 c2 \<open>f = Some e\<close> s2 by (simp add: failed_attempts_def)
          have step: "robust_get_loop url (Suc n) b = robust_get_loop url n ?b2"
            using a1 a2 we wde_is_Exception [OF we2] by simp
          show ?thesis
            unfolding step Suc.IH [OF p] fa using c1 c2
            by (simp add: attempt_plan_def)
        qed
      qed
    qed
  qed
qed

text \<open>
  Claim C8, as amended.  When every failing navigation attempt raises a
  \<open>WebDriverException\<close>, the Chase script's \<open>robust_get\<close> does not raise: it makes
  \<open>max(1, tries)\<close> rounds of a direct attempt followed by the script fallback, stops at
  the first attempt that goes through and returns \<open>True\<close> then, \<open>False\<close> when all rounds
  failed.  The Amex script's \<open>robust_get\<close> does not raise either; it makes one direct
  attempt, with no fallback and no retry, and returns whether it went through.
\<close>

theorem robust_get_webdriver_failures:
  assumes "list_all webdriver_fault (nav_faults b)"
  shows "robust_get url tries b
           = (Return (failed_attempts b < 2 * nat (max 1 tries)),
              b\<lparr>nav_faults := drop (min (2 * nat (max 1 tries)) (Suc (failed_attempts b)))
                                  (nav_faults b),
                nav_log := nav_log b @ take (Suc (failed_attempts b))
                                         (attempt_plan url (nat (max 1 tries)))\<rparr>)
       \<and> amex_robust_get url b
           = (Return (failed_attempts b = 0),
              b\<lparr>nav_faults := tl (nav_faults b), nav_log := nav_log b @ [(Direct, url)]\<rparr>)"
proof -
  have amex: "amex_robust_get url b
           = (Return (failed_attempts b = 0),
              b\<lparr>nav_faults := tl (nav_faults b), nav_log := nav_log b @ [(Direct, url)]\<rparr>)"
  proof (cases "nav_faults b")
    case Nil
    then show ?thesis
      by (simp add: amex_robust_get_def nav_attempt_def failed_attempts_def)
  next
    case (Cons f fs)
    then show ?thesis using assms
      by (cases f)
        (simp_all add: amex_robust_get_def nav_attempt_def failed_attempts_def webdriver_fault_def)
  qed
  show ?thesis
    unfolding robust_get_def using robust_get_loop_char [OF assms] amex by simp
qed

theorem robust_get_webdriver_failures_witness:
  "robust_get ''https://www.chase.com/'' 2
     \<lparr>nav_faults = [Some WebDriverException, Some InvalidSessionIdException,
                     Some WebDriverException, None],
      nav_log = []\<rparr>
     = (Return True,
        \<lparr>nav_faults = [],
         nav_log = [(Direct, ''https://www.chase.com/''), (Script, ''https://www.chase.com/''),
                    (Direct, ''https://www.chase.com/''), (Script, ''https://www.chase.com/'')]\<rparr>)
   \<and> fst (robust_get ''https://www.chase.com/'' 1
            \<lparr>nav_faults = [Some WebDriverException, Some WebDriverException], nav_log = []\<rparr>)
       = Return False"
proof -
  have 1: "list_all webdriver_fault
             (nav_faults \<lparr>nav_faults = [Some WebDriverException, Some InvalidSessionIdException,
                                         Some WebDriverException, None], nav_log = []\<rparr>)"
    by (simp add: webdriver_fault_def)
  have 2: "list_all webdriver_fault
             (nav_faults \<lparr>nav_faults = [Some WebDriverException, Some WebDriverException],
                          nav_log = []\<rparr>)"
    by (simp add: webdriver_fault_def)
  show ?thesis
    using robust_get_webdriver_failures [OF 1, of "''https://www.chase.com/''" 2]
      robust_get_webdriver_failures [OF 2, of "''https://www.chase.com/''" 1]
    by (simp add: failed_attempts_def attempt_plan_def numeral_2_eq_2)
qed

text \<open>
  The claim as stated fails.  The Amex script's \<open>robust_get\<close> gives up after one failed
  \<open>driver.get\<close>: the log shows a single direct attempt, no script fallback and no retry.
  In the Chase script a \<open>driver.get\<close> failure that is not a \<open>WebDriverException\<close> is not
  caught by the first \<open>try\<close> and reaches the caller.
\<close>

theorem robust_get_single_attempt_and_escape:
  "amex_robust_get ''https://www.americanexpress.com/en-us/account/login''
     \<lparr>nav_faults = [Some WebDriverException], nav_log = []\<rparr>
     = (Return False,
        \<lparr>nav_faults = [],
         nav_log = [(Direct, ''https://www.americanexpress.com/en-us/account/login'')]\<rparr>)
   \<and> robust_get ''https://www.chase.com/'' 2 \<lparr>nav_faults = [Some OtherException], nav_log = []\<rparr>
     = (Raise OtherException,
        \<lparr>nav_faults = [], nav_log = [(Direct, ''https://www.chase.com/'')]\<rparr>)"
  by (simp add: amex_robust_get_def robust_get_def nav_attempt_def numeral_2_eq_2)

section \<open>Properties of the matcher\<close>










subsection \<open>Text without a digit matches no date format and no relative phrase\<close>





















section \<open>Properties of the expiration parsers\<close>






















end
